theory Spec2Isabelle
  imports Complex_Main
begin

section \<open>Numbers\<close>

text \<open>
  The TypeScript sources compute with the type \<open>number\<close>, a double. Throughout this
  development a \<open>number\<close> is a real: arithmetic is exact, the values NaN and
  \<open>\<plusminus>Infinity\<close> and the two signed zeros do not exist. Where the source produces
  \<open>Infinity\<close> or NaN on purpose, the model uses \<open>None\<close> of an option type and says so.
  \<open>null\<close> and \<open>undefined\<close> arguments are \<open>None\<close>.

  Two results of the sources are decided by the rounding of doubles, and the
  statements below do not rest on the exact arithmetic there. The sine of the
  assembly validator is an argument of the model, standing for the double the
  platform computes. Of the velocities that a second solve returns, only the
  variables are stated, not the values.
\<close>

text \<open>\<open>Math.round\<close>: the nearest integer, a tie going up.\<close>

definition js_round :: "real \<Rightarrow> real" where
  "js_round x = of_int \<lfloor>x + 1 / 2\<rfloor>"

text \<open>\<open>Math.ceil\<close>.\<close>

definition js_ceil :: "real \<Rightarrow> real" where
  "js_ceil x = of_int \<lceil>x\<rceil>"

text \<open>\<open>x || 1\<close> on numbers: zero (and NaN, which is not modelled) is falsy.\<close>

definition or_one :: "real \<Rightarrow> real" where
  "or_one x = (if x = 0 then 1 else x)"

section \<open>Assembly validator (\<open>validarMontagem\<close>)\<close>

datatype MontagemTipo = Reto | Curvo | Aberta | Impossivel

text \<open>
  The two message fields \<open>mensagem\<close> and \<open>mensagem_en\<close> are template strings over
  the same numbers; the model keeps which template was chosen and the numbers
  put into it.
\<close>

datatype Mensagem =
    MsgSemPlaneta
  | MsgSemAnelar
  | MsgAnelarContato real real
  | MsgAnelarCopias real "real option" real
  | MsgSemSolar
  | MsgUmPlanetaImpossivel real
  | MsgUmPlanetaReto real
  | MsgDoisExcede real real
  | MsgDois MontagemTipo real real
  | MsgSomaExcede real real
  | MsgSoma MontagemTipo real real

record MontagemStatus =
  tipo :: MontagemTipo
  valido :: bool
  mensagem :: Mensagem

text \<open>
  With no sun the source reads \<open>s = Math.sin(Math.PI / copies)\<close>. That value is the
  double the platform computes, not the real sine of \<open>\<pi> / copies\<close>: at 6 copies it
  is \<open>0.49999999999999994\<close>, that is \<open>1/2 - 2^-54\<close>, and at 2 copies it is 1. The
  validator therefore takes the function \<open>copies \<mapsto> Math.sin(Math.PI / copies)\<close> as
  its first argument \<open>sinPi\<close>, and nothing is assumed about it. The sine of a
  number is finite, so the test \<open>!Number.isFinite(s)\<close> of the source never fires.

  \<open>minNa\<close> of the source is \<open>Infinity\<close> when that sine is at most \<open>1e-6\<close>; \<open>None\<close>
  stands for \<open>Infinity\<close>, and every ring tooth count is below it.
\<close>

definition minNa_of :: "(real \<Rightarrow> real) \<Rightarrow> real \<Rightarrow> real \<Rightarrow> real option" where
  "minNa_of sinPi Zc copies =
     (let s = sinPi copies
      in if s \<le> 1 / 10 ^ 6 then None else Some (js_ceil (Zc * (1 + 1 / s))))"

definition below_min :: "real \<Rightarrow> real option \<Rightarrow> bool" where
  "below_min NaAbs minNa = (case minNa of None \<Rightarrow> True | Some v \<Rightarrow> NaAbs < v)"

definition validarMontagem ::
  "(real \<Rightarrow> real) \<Rightarrow> real option \<Rightarrow> real list \<Rightarrow> real option \<Rightarrow> real \<Rightarrow> MontagemStatus"
  where
  "validarMontagem sinPi Ns Np Na planetCopies =
     (if Ns \<noteq> None \<and> Na \<noteq> None \<and> length Np = 0 then
        \<lparr>tipo = Impossivel, valido = False, mensagem = MsgSemPlaneta\<rparr>
      else case Na of
        None \<Rightarrow> \<lparr>tipo = Aberta, valido = True, mensagem = MsgSemAnelar\<rparr>
      | Some na \<Rightarrow>
         (case Ns of
            None \<Rightarrow>
              (let copies = max 1 (js_round (or_one planetCopies));
                   NaAbs = \<bar>na\<bar>;
                   aberta = \<lparr>tipo = Aberta, valido = True, mensagem = MsgSemSolar\<rparr>
               in if length Np \<ge> 1 then
                    (let Zc = \<bar>Np ! (length Np - 1)\<bar>
                     in if copies \<le> 1 then
                          (if NaAbs \<le> Zc then
                             \<lparr>tipo = Impossivel, valido = False,
                              mensagem = MsgAnelarContato na Zc\<rparr>
                           else aberta)
                        else
                          (let minNa = minNa_of sinPi Zc copies
                           in if below_min NaAbs minNa then
                                \<lparr>tipo = Impossivel, valido = False,
                                 mensagem = MsgAnelarCopias copies minNa na\<rparr>
                              else aberta))
                  else aberta)
          | Some ns \<Rightarrow>
              (if length Np = 1 then
                 (let esperado = ns + 2 * (Np ! 0)
                  in if na \<noteq> esperado then
                       \<lparr>tipo = Impossivel, valido = False,
                        mensagem = MsgUmPlanetaImpossivel esperado\<rparr>
                     else
                       \<lparr>tipo = Reto, valido = True, mensagem = MsgUmPlanetaReto esperado\<rparr>)
               else if length Np = 2 then
                 (let mx = ns + 2 * (Np ! 0 + Np ! 1)
                  in if na > mx then
                       \<lparr>tipo = Impossivel, valido = False, mensagem = MsgDoisExcede na mx\<rparr>
                     else
                       (let t = (if na = mx then Reto else Curvo)
                        in \<lparr>tipo = t, valido = True, mensagem = MsgDois t na mx\<rparr>))
               else
                 (let mx = ns + 2 * foldl (\<lambda>a b. a + b) 0 Np
                  in if na > mx then
                       \<lparr>tipo = Impossivel, valido = False, mensagem = MsgSomaExcede na mx\<rparr>
                     else
                       (let t = (if na = mx then Reto else Curvo)
                        in \<lparr>tipo = t, valido = True, mensagem = MsgSoma t na mx\<rparr>)))))"



section \<open>Phasing engine (\<open>render/phasing.ts\<close>)\<close>

datatype error =
    ElementoNaoEncontrado string
  | ElementoSemN string
  | TypeError

definition TAU :: real where
  "TAU = pi * 2"

text \<open>
  The remainder operator \<open>%\<close> of JavaScript on numbers: the quotient is truncated
  towards zero, so the result has the sign of the dividend.
\<close>

definition js_trunc :: "real \<Rightarrow> int" where
  "js_trunc x = (if 0 \<le> x then \<lfloor>x\<rfloor> else \<lceil>x\<rceil>)"

definition js_rem :: "real \<Rightarrow> real \<Rightarrow> real" where
  "js_rem a b = a - b * of_int (js_trunc (a / b))"

definition mod2pi :: "real \<Rightarrow> real" where
  "mod2pi a = (let x = js_rem a TAU in if x < 0 then x + TAU else x)"

text \<open>
  \<open>Math.atan2(y, x)\<close> on reals. With \<open>y = 0\<close> and \<open>x < 0\<close> the source answers
  \<open>\<plusminus>\<pi>\<close> by the sign of the zero; the model has the one zero and answers \<open>\<pi>\<close>.
\<close>

definition atan2 :: "real \<Rightarrow> real \<Rightarrow> real" where
  "atan2 y x =
     (if 0 < x then arctan (y / x)
      else if x < 0 then (if 0 \<le> y then arctan (y / x) + pi else arctan (y / x) - pi)
      else if 0 < y then pi / 2
      else if y < 0 then - (pi / 2)
      else 0)"

text \<open>\<open>Math.max(1, Math.min(5, Math.round(copies || 1)))\<close>, an integer from 1 to 5.\<close>

definition clampCopies :: "real \<Rightarrow> nat" where
  "clampCopies Nraw = nat (max 1 (min 5 \<lfloor>or_one Nraw + 1 / 2\<rfloor>))"

definition equalSpacing :: "nat \<Rightarrow> real list" where
  "equalSpacing N = map (\<lambda>i. (TAU * real i) / real N) [0..<N]"

definition Z_eff_of :: "real \<Rightarrow> real \<Rightarrow> real list \<Rightarrow> real" where
  "Z_eff_of zSun zRing planetsZ =
     (let k = max 1 (length planetsZ);
          D = (if k mod 2 \<noteq> 0 then 1 else - 1)
      in \<bar>zSun + D * \<bar>zRing\<bar>\<bar>)"

definition tickAngle :: "real \<Rightarrow> nat \<Rightarrow> nat \<Rightarrow> real" where
  "tickAngle thetaHat N m =
     (let targetAngle = (TAU * real m) / real N;
          numTicks = js_round (targetAngle / thetaHat)
      in mod2pi (numTicks * thetaHat))"

definition computeArmAngles ::
  "real \<Rightarrow> real option \<Rightarrow> real option \<Rightarrow> real list \<Rightarrow> real list" where
  "computeArmAngles Nraw zSun zRing planetsZ =
     (let N = clampCopies Nraw
      in if N \<le> 1 then [0]
         else case zRing of
           None \<Rightarrow> equalSpacing N
         | Some zr \<Rightarrow>
            (case zSun of
               None \<Rightarrow> equalSpacing N
             | Some zs \<Rightarrow>
                (let Z_eff = Z_eff_of zs zr planetsZ
                 in if Z_eff = 0 then equalSpacing N
                    else (let thetaHat = TAU / Z_eff
                          in map (tickAngle thetaHat N) [0..<N]))))"

text \<open>
  Array reads \<open>xs[i] ?? d\<close> and writes \<open>xs[i] = v\<close>. The source writes only at an
  index that exists or at the end of the array, where the array grows by one.
\<close>

definition nth_or :: "'a list \<Rightarrow> nat \<Rightarrow> 'a \<Rightarrow> 'a" where
  "nth_or xs i d = (if i < length xs then xs ! i else d)"

definition arr_set :: "'a list \<Rightarrow> nat \<Rightarrow> 'a \<Rightarrow> 'a list" where
  "arr_set xs k v = (if k < length xs then xs[k := v] else xs @ [v])"

definition arr_fill :: "'a list \<Rightarrow> nat \<Rightarrow> (nat \<Rightarrow> 'a) \<Rightarrow> 'a list" where
  "arr_fill old N f = foldl (\<lambda>row m. arr_set row m (f m)) old [0..<N]"

record In =
  stageId :: int
  solarZ :: "real option"
  annulusZ :: "real option"
  planetsZ :: "real list"
  copies :: real
  positions :: "(real \<times> real) list"

text \<open>
  The keys of \<open>gearPhaseMap\<close> are the strings \<open>omega_p{stage}_{k}#copy{m}\<close>,
  \<open>omega_s{stage}\<close> and \<open>omega_a{stage}\<close>; the model keeps the numbers they are
  printed from. The map is the list of its entries in insertion order.
\<close>

datatype GearKey = OmegaP int nat nat | OmegaS int | OmegaA int

record Out =
  copyAngles :: "real list"
  planetOriginal :: "real list"
  planetCoupled :: "real list option"
  sunPhase :: "real option"
  ringPhase :: "real option"
  gearPhaseMap :: "(GearKey \<times> real) list"

definition normalizePositions ::
  "(real \<times> real) list \<Rightarrow> (real \<times> real) list \<times> real list" where
  "normalizePositions ps =
     (if length ps > 0 then
        (let x0 = fst (ps ! 0); y0 = snd (ps ! 0);
             baseAng = atan2 y0 x0;
             cosB = cos (- baseAng);
             sinB = sin (- baseAng);
             normPositions = map (\<lambda>(x, y). (x * cosB - y * sinB, x * sinB + y * cosB)) ps
         in (normPositions, map (\<lambda>(x, y). atan2 y x) normPositions))
      else (ps, []))"

definition parityOf :: "real \<Rightarrow> real" where
  "parityOf z = (if js_rem z 2 = 0 then 1 else 0)"

text \<open>
  One pass of the loop over the chain, for a planet \<open>k\<close> whose centre
  \<open>normPositions[k]\<close> exists: the phases of planet \<open>k\<close> in every copy.
\<close>

definition forwardRow ::
  "real option \<Rightarrow> real list \<Rightarrow> (real \<times> real) list \<Rightarrow> real list \<Rightarrow> nat \<Rightarrow>
   real list list \<Rightarrow> nat \<Rightarrow> real list" where
  "forwardRow sZ pZ normPositions cAngles N absPhases k =
     (let currZ = max 1 \<bar>pZ ! k\<bar>;
          prevZ = (if k = 0 then (case sZ of None \<Rightarrow> 0 | Some z \<Rightarrow> z)
                   else max 1 \<bar>pZ ! (k - 1)\<bar>);
          gearRatio = prevZ / currZ;
          currPos = normPositions ! k;
          prevPos = (if k = 0 then (0, 0) else normPositions ! (k - 1));
          dx = fst currPos - fst prevPos;
          dy = snd currPos - snd prevPos;
          meshAngle = atan2 dy dx;
          extra = parityOf currZ * (pi / currZ)
      in map (\<lambda>m.
            (let theta_i = cAngles ! m;
                 phi_prev = (if k = 0 then 0 else absPhases ! (k - 1) ! m);
                 termRoll = - phi_prev * gearRatio;
                 termCarrier = (theta_i + meshAngle) * (1 + gearRatio)
             in termRoll + termCarrier + extra)) [0..<N])"

text \<open>
  The loop \<open>for (k = 0; k < planetsZ.length; k++)\<close>. Reading \<open>normPositions[k]\<close>
  beyond the end gives \<open>undefined\<close>, and \<open>currPos[0]\<close> then throws a TypeError.
\<close>

function forwardLoop ::
  "real option \<Rightarrow> real list \<Rightarrow> (real \<times> real) list \<Rightarrow> real list \<Rightarrow> nat \<Rightarrow> nat \<Rightarrow>
   real list list \<times> real list list \<Rightarrow> error + (real list list \<times> real list list)" where
  "forwardLoop sZ pZ normPositions cAngles N k (planetPhases, absPhases) =
     (if k < length pZ then
        (if k < length normPositions then
           (let row = forwardRow sZ pZ normPositions cAngles N absPhases k
            in forwardLoop sZ pZ normPositions cAngles N (Suc k)
                 (arr_set planetPhases k (map mod2pi row), arr_set absPhases k row))
         else Inl TypeError)
      else Inr (planetPhases, absPhases))"
  by pat_completeness auto
termination
  by (relation "measure (\<lambda>(sZ, pZ, np, ca, N, k, st). length pZ - k)") auto

declare forwardLoop.simps [simp del]

definition ringPhaseOf ::
  "real option \<Rightarrow> real list \<Rightarrow> real list \<Rightarrow> real list list \<Rightarrow> real list list \<Rightarrow>
   real option" where
  "ringPhaseOf aZ pZ betaAngles planetPhases absPhases =
     (case aZ of
        None \<Rightarrow> None
      | Some za \<Rightarrow>
         (if length pZ \<ge> 1 then
            (let Za = \<bar>za\<bar>
             in if Za > 0 then
                  (let usesAdditional = (length pZ \<ge> 2);
                       idxCoupled = (if usesAdditional then length pZ - 1 else 0);
                       Zref = \<bar>nth_or pZ idxCoupled 0\<bar>;
                       phiRef =
                         (if idxCoupled < length absPhases \<and> 0 < length (absPhases ! idxCoupled)
                          then absPhases ! idxCoupled ! 0
                          else if idxCoupled < length planetPhases
                                  \<and> 0 < length (planetPhases ! idxCoupled)
                          then planetPhases ! idxCoupled ! 0
                          else 0);
                       betaLast = nth_or betaAngles idxCoupled 0
                   in Some (mod2pi (phiRef * (Zref / Za) + betaLast * (1 - Zref / Za))))
                else None)
          else None))"

text \<open>
  The special case without a sun: the planet on the ring is anchored again in
  every copy, and the phases go backwards along the chain, \<open>k = idx - 1, ..., 0\<close>.
\<close>

definition backwardRow ::
  "real list \<Rightarrow> (real \<times> real) list \<Rightarrow> real list \<Rightarrow>
   real list list \<Rightarrow> real list list \<Rightarrow> nat \<Rightarrow> nat \<Rightarrow> real" where
  "backwardRow pZ normPositions cAngles planetPhases absPhases k m =
     (let Zk = max 1 \<bar>pZ ! k\<bar>;
          Znext = max 1 \<bar>pZ ! (k + 1)\<bar>;
          gearRatio = Zk / Znext;
          currPos = nth_or normPositions k (0, 0);
          nextPos = nth_or normPositions (k + 1) currPos;
          dx = fst nextPos - fst currPos;
          dy = snd nextPos - snd currPos;
          meshAngle = atan2 dy dx;
          extraNext = parityOf Znext * (pi / Znext);
          theta_i = cAngles ! m;
          phi_next =
            (if k + 1 < length absPhases \<and> m < length (absPhases ! (k + 1))
             then absPhases ! (k + 1) ! m
             else if k + 1 < length planetPhases \<and> m < length (planetPhases ! (k + 1))
             then planetPhases ! (k + 1) ! m
             else 0)
      in ((theta_i + meshAngle) * (1 + gearRatio) + extraNext - phi_next) / gearRatio)"

fun backwardLoop ::
  "real list \<Rightarrow> (real \<times> real) list \<Rightarrow> real list \<Rightarrow> nat \<Rightarrow> nat \<Rightarrow>
   real list list \<times> real list list \<Rightarrow> real list list \<times> real list list" where
  "backwardLoop pZ normPositions cAngles N 0 st = st"
| "backwardLoop pZ normPositions cAngles N (Suc k) (planetPhases, absPhases) =
     (let f = backwardRow pZ normPositions cAngles planetPhases absPhases k;
          absRow = arr_fill (nth_or absPhases k []) N f;
          plRow = arr_fill (nth_or planetPhases k []) N (\<lambda>m. mod2pi (f m))
      in backwardLoop pZ normPositions cAngles N k
           (arr_set planetPhases k plRow, arr_set absPhases k absRow))"

definition reanchor ::
  "real option \<Rightarrow> real option \<Rightarrow> real option \<Rightarrow> real list \<Rightarrow> (real \<times> real) list \<Rightarrow>
   real list \<Rightarrow> real list \<Rightarrow> nat \<Rightarrow> real list list \<times> real list list \<Rightarrow>
   real list list \<times> real list list" where
  "reanchor sZ aZ rPhase pZ normPositions betaAngles cAngles N st =
     (case (sZ, aZ, rPhase) of
        (None, Some za, Some rp) \<Rightarrow>
          (if length pZ \<ge> 1 \<and> \<bar>za\<bar> > 0 then
             (let Za = \<bar>za\<bar>;
                  idxCoupled = length pZ - 1;
                  Zc = max 1 \<bar>pZ ! idxCoupled\<bar>;
                  baseBeta =
                    (if idxCoupled < length betaAngles then betaAngles ! idxCoupled
                     else atan2 (if idxCoupled < length normPositions
                                 then snd (normPositions ! idxCoupled) else 0)
                                (if idxCoupled < length normPositions
                                 then fst (normPositions ! idxCoupled) else 1));
                  phi = (\<lambda>m. rp * (Za / Zc) + mod2pi (baseBeta + cAngles ! m) * (1 - Za / Zc));
                  plRow = arr_fill (nth_or (fst st) idxCoupled []) N (\<lambda>m. mod2pi (phi m));
                  absRow = arr_fill (nth_or (snd st) idxCoupled []) N phi
              in backwardLoop pZ normPositions cAngles N idxCoupled
                   (arr_set (fst st) idxCoupled plRow, arr_set (snd st) idxCoupled absRow))
           else st)
      | _ \<Rightarrow> st)"

definition buildPhaseMap ::
  "int \<Rightarrow> nat \<Rightarrow> nat \<Rightarrow> real list list \<Rightarrow> real option \<Rightarrow> real option \<Rightarrow>
   (GearKey \<times> real) list" where
  "buildPhaseMap sid len N planetPhases sPhase rPhase =
     concat (map (\<lambda>k. map (\<lambda>m. (OmegaP sid (k + 1) m, planetPhases ! k ! m)) [0..<N]) [0..<len])
     @ (case sPhase of None \<Rightarrow> [] | Some v \<Rightarrow> [(OmegaS sid, v)])
     @ (case rPhase of None \<Rightarrow> [] | Some v \<Rightarrow> [(OmegaA sid, v)])"

text \<open>
  The phases along the chain: the formula for \<open>P1\<close>, then the loop, which writes
  \<open>planetPhases[0]\<close> again.
\<close>

definition chainPhases ::
  "In \<Rightarrow> nat \<Rightarrow> real list \<Rightarrow> (real \<times> real) list \<Rightarrow>
   error + (real list list \<times> real list list)" where
  "chainPhases inp N cAngles normPositions =
     (if length (planetsZ inp) \<ge> 1 then
        (let ZsEff = (case solarZ inp of None \<Rightarrow> 0 | Some z \<Rightarrow> z);
             Zp1 = max 1 \<bar>planetsZ inp ! 0\<bar>;
             extra1 = parityOf Zp1 * (pi / Zp1);
             scale1 = 1 + ZsEff / Zp1;
             p1 = map (\<lambda>theta_i. mod2pi (theta_i * scale1 + extra1)) cAngles
         in forwardLoop (solarZ inp) (planetsZ inp) normPositions cAngles N 0 ([p1], []))
      else Inr ([], []))"

definition computeStagePhasing :: "In \<Rightarrow> error + Out" where
  "computeStagePhasing inp =
     (let N = clampCopies (copies inp);
          cAngles = computeArmAngles (real N) (solarZ inp) (annulusZ inp) (planetsZ inp);
          sPhase = (case solarZ inp of None \<Rightarrow> None | Some z \<Rightarrow> Some 0);
          normPositions = fst (normalizePositions (positions inp));
          betaAngles = snd (normalizePositions (positions inp))
      in case chainPhases inp N cAngles normPositions of
           Inl e \<Rightarrow> Inl e
         | Inr st \<Rightarrow>
            (let rPhase = ringPhaseOf (annulusZ inp) (planetsZ inp) betaAngles (fst st) (snd st);
                 st2 = reanchor (solarZ inp) (annulusZ inp) rPhase (planetsZ inp)
                         normPositions betaAngles cAngles N st;
                 planetPhases = fst st2
             in Inr \<lparr>copyAngles = cAngles,
                     planetOriginal =
                       (if length (planetsZ inp) \<ge> 1 then planetPhases ! 0 else []),
                     planetCoupled =
                       (if length (planetsZ inp) \<ge> 2 then Some (planetPhases ! 1) else None),
                     sunPhase = sPhase,
                     ringPhase = rPhase,
                     gearPhaseMap =
                       buildPhaseMap (stageId inp) (length (planetsZ inp)) N planetPhases
                         sPhase rPhase\<rparr>))"

section \<open>Linear algebra (\<open>lib/numeric.ts\<close>)\<close>

text \<open>
  A matrix is the list of its rows. Every matrix the solver builds is
  rectangular, and the loops below read it inside its bounds. Reading \<open>A[0]\<close> of
  a matrix without rows gives \<open>undefined\<close>, and a property read on it throws a
  TypeError: \<open>transpose\<close> and \<open>matMul\<close> do so.
\<close>

definition transpose_m :: "real list list \<Rightarrow> error + real list list" where
  "transpose_m M =
     (case M of
        [] \<Rightarrow> Inl TypeError
      | r0 # _ \<Rightarrow> Inr (map (\<lambda>j. map (\<lambda>row. row ! j) M) [0..<length r0]))"

text \<open>
  \<open>matMul\<close> adds \<open>A[i][t] * B[t][j]\<close> into \<open>C[i][j]\<close> for \<open>t = 0, ..., k - 1\<close> in this
  order and skips a zero \<open>A[i][t]\<close>.
\<close>

definition matMul :: "real list list \<Rightarrow> real list list \<Rightarrow> error + real list list" where
  "matMul A B =
     (case A of
        [] \<Rightarrow> Inl TypeError
      | a0 # _ \<Rightarrow>
         (case B of
            [] \<Rightarrow> Inl TypeError
          | b0 # _ \<Rightarrow>
             (let m = length A; k = length a0; n = length b0
              in Inr (map (\<lambda>i. map (\<lambda>j.
                        foldl (\<lambda>s t. if A ! i ! t \<noteq> 0 then s + A ! i ! t * (B ! t ! j) else s)
                          0 [0..<k]) [0..<n]) [0..<m]))))"

definition matVec :: "real list list \<Rightarrow> real list \<Rightarrow> real list" where
  "matVec A x =
     map (\<lambda>row. foldl (\<lambda>s i. s + row ! i * (x ! i)) 0 [0..<length row]) A"

text \<open>
  The pivot search of both eliminations: the first row from \<open>r\<close> on whose entry
  in column \<open>c\<close> is largest in absolute value.
\<close>

definition findPivot :: "real list list \<Rightarrow> nat \<Rightarrow> nat \<Rightarrow> nat \<Rightarrow> nat" where
  "findPivot A c r n =
     foldl (\<lambda>pivot i. if \<bar>A ! i ! c\<bar> > \<bar>A ! pivot ! c\<bar> then i else pivot) r [r + 1..<n]"

definition swapRows :: "real list list \<Rightarrow> nat \<Rightarrow> nat \<Rightarrow> real list list" where
  "swapRows A r p = A[r := A ! p, p := A ! r]"

text \<open>\<open>for (j = c; j < m; j++) row[j] /= div\<close>\<close>

definition scaleRow :: "nat \<Rightarrow> nat \<Rightarrow> real \<Rightarrow> real list \<Rightarrow> real list" where
  "scaleRow c m d row =
     map (\<lambda>j. if c \<le> j \<and> j < m then row ! j / d else row ! j) [0..<length row]"

text \<open>\<open>for (j = c; j < m; j++) row[j] -= f * prow[j]\<close>\<close>

definition subRow :: "nat \<Rightarrow> nat \<Rightarrow> real \<Rightarrow> real list \<Rightarrow> real list \<Rightarrow> real list" where
  "subRow c m f prow row =
     map (\<lambda>j. if c \<le> j \<and> j < m then row ! j - f * (prow ! j) else row ! j) [0..<length row]"

text \<open>
  The elimination of column \<open>c\<close> from every row but \<open>r\<close>; row \<open>r\<close> itself does not
  change while the loop runs. \<open>solveGaussian\<close> skips a row whose factor is zero.
\<close>

definition eliminate :: "nat \<Rightarrow> nat \<Rightarrow> nat \<Rightarrow> real list list \<Rightarrow> real list list" where
  "eliminate r c m A =
     map (\<lambda>i. if i \<noteq> r then subRow c m (A ! i ! c) (A ! r) (A ! i) else A ! i) [0..<length A]"

definition pivotStep :: "nat \<Rightarrow> nat \<Rightarrow> nat \<Rightarrow> nat \<Rightarrow> real list list \<Rightarrow> real list list" where
  "pivotStep r c m pivot A =
     (let A1 = swapRows A r pivot;
          A2 = A1[r := scaleRow c m (A1 ! r ! c) (A1 ! r)]
      in eliminate r c m A2)"

definition solveColumn :: "nat \<Rightarrow> real list list \<Rightarrow> nat \<Rightarrow> real list list" where
  "solveColumn n M c =
     (let piv = findPivot M c c n
      in if \<bar>M ! piv ! c\<bar> < 1 / 10 ^ 15 then M
         else pivotStep c c (n + 1) piv M)"

text \<open>\<open>A.map((row, i) => row.concat([b[i]]))\<close>: the augmented matrix.\<close>

definition augment :: "real list list \<Rightarrow> real list \<Rightarrow> real list list" where
  "augment A b = map (\<lambda>i. A ! i @ [b ! i]) [0..<length A]"

definition solveGaussian :: "real list list \<Rightarrow> real list \<Rightarrow> real list" where
  "solveGaussian A b =
     (let n = length A;
          M = augment A b;
          M' = foldl (solveColumn n) M [0..<n]
      in map (\<lambda>row. row ! n) M')"

definition leastSquares :: "real list list \<Rightarrow> real list \<Rightarrow> error + real list" where
  "leastSquares A b =
     (case transpose_m A of
        Inl e \<Rightarrow> Inl e
      | Inr AT \<Rightarrow>
         (case matMul AT A of
            Inl e \<Rightarrow> Inl e
          | Inr ATA \<Rightarrow> Inr (solveGaussian ATA (matVec AT b))))"

section \<open>Kinematic solver (\<open>solveGearSystem\<close>)\<close>

datatype ElementType = Solar | Planet | Annulus | Arm

record Element =
  el_id :: string
  el_type :: ElementType
  el_N :: "real option"
  el_omega :: string

datatype MeshType = External | Internal

text \<open>
  A mesh either has the property \<open>type\<close> (whose value may be \<open>undefined\<close>) or has it
  not, and then \<open>sigma\<close> counts.
\<close>

datatype MeshTag = TypeAbsent | TypePresent "MeshType option"

record Mesh =
  mesh_i :: string
  mesh_j :: string
  mesh_carrier :: string
  mesh_type :: MeshTag
  mesh_sigma :: "real option"

datatype ConstraintType = Known | Equal | Lock

record Constraint =
  c_type :: ConstraintType
  c_var :: "string option"
  c_a :: "string option"
  c_b :: "string option"
  c_value :: "real option"

record Carrier =
  carrier_id :: string
  carrier_omega :: string

record Ratio =
  ratio_id :: string
  ratio_num :: string
  ratio_den :: string

record Model =
  elements :: "Element list"
  carriers :: "Carrier list option"
  meshes :: "Mesh list"
  constraints :: "Constraint list option"
  ratios :: "Ratio list option"

datatype RowTag =
    TagMesh string string string
  | TagKnown "string option"
  | TagEqual "string option" "string option"
  | TagLock "string option"

record Row =
  row_A :: "real list"
  row_b :: real
  row_tag :: RowTag

text \<open>The result: the three shapes of object that \<open>solveGearSystem\<close> returns.\<close>

datatype SolveResult =
    Velocities "string list" "(string \<times> real) list" "(string \<times> real option) list" "Row list"
  | Underdetermined "string list" nat
  | Overdetermined nat

text \<open>A \<open>Set\<close> of strings in insertion order.\<close>

definition set_add :: "string list \<Rightarrow> string \<Rightarrow> string list" where
  "set_add vs v = (if v \<in> set vs then vs else vs @ [v])"

text \<open>\<open>if (s) vars.add(s)\<close>: \<open>undefined\<close> and the empty string are falsy.\<close>

definition add_truthy :: "string list \<Rightarrow> string option \<Rightarrow> string list" where
  "add_truthy vs s = (case s of None \<Rightarrow> vs | Some v \<Rightarrow> if v = [] then vs else set_add vs v)"

definition collectVars :: "Model \<Rightarrow> string list" where
  "collectVars model =
     (let v1 = foldl (\<lambda>vs el. set_add vs (el_omega el)) [] (elements model);
          v2 = foldl (\<lambda>vs c. set_add vs (carrier_omega c)) v1
                 (case carriers model of None \<Rightarrow> [] | Some cs \<Rightarrow> cs)
      in foldl (\<lambda>vs cx. add_truthy (add_truthy (add_truthy vs (c_var cx)) (c_a cx)) (c_b cx)) v2
           (case constraints model of None \<Rightarrow> [] | Some cs \<Rightarrow> cs))"

text \<open>
  \<open>vidx[name]\<close>: the index of a variable, \<open>None\<close> for a name that is no variable.
  An \<open>undefined\<close> name is looked up as the string \<open>undefined\<close>.
\<close>

fun index_of :: "string list \<Rightarrow> string \<Rightarrow> nat option" where
  "index_of [] v = None"
| "index_of (x # xs) v =
     (if x = v then Some 0 else (case index_of xs v of None \<Rightarrow> None | Some k \<Rightarrow> Some (Suc k)))"

definition key_of :: "string option \<Rightarrow> string" where
  "key_of s = (case s of None \<Rightarrow> ''undefined'' | Some v \<Rightarrow> v)"

text \<open>
  \<open>row[vidx[name]] += x\<close> and \<open>row[vidx[name]] = x\<close>. With no index the write goes
  to a property of the array that is no entry, and every entry stays.
\<close>

definition row_add :: "real list \<Rightarrow> nat option \<Rightarrow> real \<Rightarrow> real list" where
  "row_add row idx x = (case idx of None \<Rightarrow> row | Some k \<Rightarrow> row[k := row ! k + x])"

definition row_put :: "real list \<Rightarrow> nat option \<Rightarrow> real \<Rightarrow> real list" where
  "row_put row idx x = (case idx of None \<Rightarrow> row | Some k \<Rightarrow> row[k := x])"

definition lookupN :: "Model \<Rightarrow> string \<Rightarrow> error + real" where
  "lookupN model omegaId =
     (case find (\<lambda>e. el_omega e = omegaId) (elements model) of
        None \<Rightarrow> Inl (ElementoNaoEncontrado omegaId)
      | Some e \<Rightarrow> (case el_N e of None \<Rightarrow> Inl (ElementoSemN omegaId) | Some n \<Rightarrow> Inr n))"

definition sigmaOf :: "Mesh \<Rightarrow> real" where
  "sigmaOf m =
     (case mesh_type m of
        TypePresent t \<Rightarrow> (if t = Some External then 1 else - 1)
      | TypeAbsent \<Rightarrow> (case mesh_sigma m of None \<Rightarrow> 1 | Some s \<Rightarrow> s))"

definition meshRow :: "Model \<Rightarrow> string list \<Rightarrow> Mesh \<Rightarrow> error + Row" where
  "meshRow model vlist m =
     (case lookupN model (mesh_i m) of
        Inl e \<Rightarrow> Inl e
      | Inr Ni \<Rightarrow>
         (case lookupN model (mesh_j m) of
            Inl e \<Rightarrow> Inl e
          | Inr Nj \<Rightarrow>
             (let sigma = sigmaOf m;
                  row0 = replicate (length vlist) 0;
                  row1 = row_add row0 (index_of vlist (mesh_i m)) Ni;
                  row2 = row_add row1 (index_of vlist (mesh_carrier m)) (- Ni);
                  row3 = row_add row2 (index_of vlist (mesh_j m)) (sigma * Nj);
                  row4 = row_add row3 (index_of vlist (mesh_carrier m)) (- sigma * Nj)
              in Inr \<lparr>row_A = row4, row_b = 0,
                      row_tag = TagMesh (mesh_i m) (mesh_j m) (mesh_carrier m)\<rparr>)))"

fun meshRows :: "Model \<Rightarrow> string list \<Rightarrow> Mesh list \<Rightarrow> error + Row list" where
  "meshRows model vlist [] = Inr []"
| "meshRows model vlist (m # ms) =
     (case meshRow model vlist m of
        Inl e \<Rightarrow> Inl e
      | Inr r \<Rightarrow> (case meshRows model vlist ms of Inl e \<Rightarrow> Inl e | Inr rs \<Rightarrow> Inr (r # rs)))"

definition constraintRow :: "string list \<Rightarrow> Constraint \<Rightarrow> Row" where
  "constraintRow vlist c =
     (let row0 = replicate (length vlist) 0
      in case c_type c of
           Known \<Rightarrow>
             \<lparr>row_A = row_put row0 (index_of vlist (key_of (c_var c))) 1,
              row_b = (case c_value c of None \<Rightarrow> 0 | Some v \<Rightarrow> v),
              row_tag = TagKnown (c_var c)\<rparr>
         | Equal \<Rightarrow>
             \<lparr>row_A = row_add (row_put row0 (index_of vlist (key_of (c_a c))) 1)
                        (index_of vlist (key_of (c_b c))) (- 1),
              row_b = 0,
              row_tag = TagEqual (c_a c) (c_b c)\<rparr>
         | Lock \<Rightarrow>
             \<lparr>row_A = row_put row0 (index_of vlist (key_of (c_var c))) 1,
              row_b = 0,
              row_tag = TagLock (c_var c)\<rparr>)"

text \<open>
  \<open>rankOf\<close>: the loop \<open>while (r < n && c < m)\<close> over a copy of the matrix, with
  \<open>n\<close> rows and \<open>m\<close> columns; the result is the last \<open>r\<close>.
\<close>

function rankLoop :: "nat \<Rightarrow> nat \<Rightarrow> real list list \<Rightarrow> nat \<Rightarrow> nat \<Rightarrow> nat" where
  "rankLoop n m A r c =
     (if r < n \<and> c < m then
        (let pivot = findPivot A c r n
         in if \<bar>A ! pivot ! c\<bar> < 1 / 10 ^ 9 then rankLoop n m A r (c + 1)
            else rankLoop n m (pivotStep r c m pivot A) (r + 1) (c + 1))
      else r)"
  by pat_completeness auto
termination
  by (relation "measure (\<lambda>(n, m, A, r, c). m - c)") auto

declare rankLoop.simps [simp del]

definition rankOf :: "real list list \<Rightarrow> nat" where
  "rankOf M = rankLoop (length M) (case M of [] \<Rightarrow> 0 | r0 # _ \<Rightarrow> length r0) M 0 0"

definition ratioValue :: "(string \<times> real) list \<Rightarrow> Ratio \<Rightarrow> string \<times> real option" where
  "ratioValue velocities r =
     (ratio_id r,
      (case (map_of velocities (ratio_num r), map_of velocities (ratio_den r)) of
         (Some num, Some den) \<Rightarrow> (if \<bar>den\<bar> < 1 / 10 ^ 12 then None else Some (num / den))
       | _ \<Rightarrow> None))"

definition buildRows :: "Model \<Rightarrow> string list \<Rightarrow> error + Row list" where
  "buildRows model vlist =
     (case meshRows model vlist (meshes model) of
        Inl e \<Rightarrow> Inl e
      | Inr mrows \<Rightarrow>
          Inr (mrows @ map (constraintRow vlist)
                        (case constraints model of None \<Rightarrow> [] | Some cs \<Rightarrow> cs)))"

text \<open>
  The solver after the rows are built. After they are stacked, \<open>A[0].length\<close> is
  read: without any row this throws a TypeError. A ratio is \<open>None\<close> where the
  source gives NaN.
\<close>

definition solveStacked :: "Model \<Rightarrow> string list \<Rightarrow> Row list \<Rightarrow> error + SolveResult" where
  "solveStacked model vlist rows =
     (let A = map row_A rows;
          b = map row_b rows;
          rank = rankOf A
      in case A of
           [] \<Rightarrow> Inl TypeError
         | a0 # _ \<Rightarrow>
            (let nVars = length a0;
                 missingConstraints = nVars - rank;
                 Ab = augment A b;
                 rankAug = rankOf Ab
             in if rankAug > rank then
                  (let extraEq = int (length rows) - int nVars;
                       conflictingConstraints = max 1 (max (int rankAug - int rank) extraEq)
                   in Inr (Overdetermined (nat conflictingConstraints)))
                else if rank < nVars then
                  Inr (Underdetermined vlist missingConstraints)
                else
                  (case leastSquares A b of
                     Inl e \<Rightarrow> Inl e
                   | Inr sol \<Rightarrow>
                      (let velocities = zip vlist sol
                       in Inr (Velocities vlist velocities
                                 (map (ratioValue velocities)
                                    (case ratios model of None \<Rightarrow> [] | Some rs \<Rightarrow> rs))
                                 rows)))))"

definition solveGearSystem :: "Model \<Rightarrow> error + SolveResult" where
  "solveGearSystem model =
     (let vlist = collectVars model
      in case buildRows model vlist of
           Inl e \<Rightarrow> Inl e
         | Inr rows \<Rightarrow> solveStacked model vlist rows)"

section \<open>Models used in the theorems\<close>

text \<open>
  The single stage of the worked example: a sun of 20 teeth, one planet of 20 teeth,
  a ring of 60 teeth, one carrier; the sun is known at 10 rpm and the ring is held
  at 0, by a \<open>known\<close> constraint of value 0 or by a \<open>lock\<close>. The editor builds the
  model in this order.
\<close>

definition known :: "string \<Rightarrow> real \<Rightarrow> Constraint" where
  "known x v = \<lparr>c_type = Known, c_var = Some x, c_a = None, c_b = None, c_value = Some v\<rparr>"

definition singleStage :: "ConstraintType \<Rightarrow> Model" where
  "singleStage ringPin =
     \<lparr>elements =
        [\<lparr>el_id = ''sol1'', el_type = Solar, el_N = Some 20, el_omega = ''omega_s1''\<rparr>,
         \<lparr>el_id = ''arm1'', el_type = Arm, el_N = None, el_omega = ''omega_b1''\<rparr>,
         \<lparr>el_id = ''p1_1'', el_type = Planet, el_N = Some 20, el_omega = ''omega_p1_1''\<rparr>,
         \<lparr>el_id = ''ann1'', el_type = Annulus, el_N = Some 60, el_omega = ''omega_a1''\<rparr>],
      carriers = Some [\<lparr>carrier_id = ''arm1'', carrier_omega = ''omega_b1''\<rparr>],
      meshes =
        [\<lparr>mesh_i = ''omega_s1'', mesh_j = ''omega_p1_1'', mesh_carrier = ''omega_b1'',
          mesh_type = TypePresent (Some External), mesh_sigma = None\<rparr>,
         \<lparr>mesh_i = ''omega_p1_1'', mesh_j = ''omega_a1'', mesh_carrier = ''omega_b1'',
          mesh_type = TypePresent (Some Internal), mesh_sigma = None\<rparr>],
      constraints =
        Some [known ''omega_s1'' 10,
              \<lparr>c_type = ringPin, c_var = Some ''omega_a1'', c_a = None, c_b = None,
               c_value = (if ringPin = Known then Some 0 else None)\<rparr>],
      ratios = None\<rparr>"

text \<open>
  A name is unresolved in a model when no element has it as its velocity variable,
  or when the element found for it has no tooth count.
\<close>

definition unresolved :: "Model \<Rightarrow> string \<Rightarrow> bool" where
  "unresolved model v =
     (case find (\<lambda>e. el_omega e = v) (elements model) of
        None \<Rightarrow> True
      | Some e \<Rightarrow> el_N e = None)"

definition velocitiesOf :: "error + SolveResult \<Rightarrow> (string \<times> real) list option" where
  "velocitiesOf res =
     (case res of Inr (Velocities vs vel rs rows) \<Rightarrow> Some vel | _ \<Rightarrow> None)"

text \<open>
  An open stage as the editor builds it: a carrier and one planet, no sun, no ring,
  no known speed. It has two variables and no equation.
\<close>

definition openStage :: Model where
  "openStage =
     \<lparr>elements =
        [\<lparr>el_id = ''arm1'', el_type = Arm, el_N = None, el_omega = ''omega_b1''\<rparr>,
         \<lparr>el_id = ''p1_1'', el_type = Planet, el_N = Some 20, el_omega = ''omega_p1_1''\<rparr>],
      carriers = Some [\<lparr>carrier_id = ''arm1'', carrier_omega = ''omega_b1''\<rparr>],
      meshes = [],
      constraints = Some [],
      ratios = Some []\<rparr>"

text \<open>
  A sun and a planet whose mesh names a carrier that is neither an element nor a
  carrier of the model.
\<close>

definition danglingCarrier :: Model where
  "danglingCarrier =
     \<lparr>elements =
        [\<lparr>el_id = ''sol1'', el_type = Solar, el_N = Some 20, el_omega = ''omega_s1''\<rparr>,
         \<lparr>el_id = ''p1_1'', el_type = Planet, el_N = Some 20, el_omega = ''omega_p1_1''\<rparr>],
      carriers = None,
      meshes =
        [\<lparr>mesh_i = ''omega_s1'', mesh_j = ''omega_p1_1'', mesh_carrier = ''omega_b9'',
          mesh_type = TypePresent (Some External), mesh_sigma = None\<rparr>],
      constraints = Some [known ''omega_s1'' 10],
      ratios = None\<rparr>"

text \<open>A sun whose mesh names a planet that is no element of the model.\<close>

definition missingPlanet :: Model where
  "missingPlanet =
     \<lparr>elements =
        [\<lparr>el_id = ''sol1'', el_type = Solar, el_N = Some 20, el_omega = ''omega_s1''\<rparr>,
         \<lparr>el_id = ''arm1'', el_type = Arm, el_N = None, el_omega = ''omega_b1''\<rparr>],
      carriers = Some [\<lparr>carrier_id = ''arm1'', carrier_omega = ''omega_b1''\<rparr>],
      meshes =
        [\<lparr>mesh_i = ''omega_s1'', mesh_j = ''omega_p1_1'', mesh_carrier = ''omega_b1'',
          mesh_type = TypePresent (Some External), mesh_sigma = None\<rparr>],
      constraints = Some [known ''omega_s1'' 10],
      ratios = None\<rparr>"



section \<open>Notions for the proofs about the eliminations\<close>





section \<open>The assembly validator: theorems\<close>

lemma foldl_add_sum_list: "foldl (\<lambda>a b. a + b) (z::real) xs = z + sum_list xs"
  by (induction xs arbitrary: z) simp_all

text \<open>
  Claim C3. With a sun of \<open>Ns\<close> teeth, exactly one planet of \<open>Np\<close> teeth and a
  ring of \<open>Na\<close> teeth, the stage is valid and straight exactly when
  \<open>Na = Ns + 2 * Np\<close>, and invalid and impossible for every other \<open>Na\<close>, whatever
  the number of copies. \<open>(20, [10], 40)\<close> is straight, \<open>(20, [10], 41)\<close> impossible.
\<close>

theorem validar_um_planeta:
  "(tipo (validarMontagem sinPi (Some Ns) [Np1] (Some Na) c) = Reto) = (Na = Ns + 2 * Np1)
   \<and> (tipo (validarMontagem sinPi (Some Ns) [Np1] (Some Na) c) = Impossivel) = (Na \<noteq> Ns + 2 * Np1)
   \<and> valido (validarMontagem sinPi (Some Ns) [Np1] (Some Na) c) = (Na = Ns + 2 * Np1)
   \<and> tipo (validarMontagem sinPi (Some 20) [10] (Some 40) c) = Reto
   \<and> valido (validarMontagem sinPi (Some 20) [10] (Some 40) c)
   \<and> tipo (validarMontagem sinPi (Some 20) [10] (Some 41) c) = Impossivel
   \<and> \<not> valido (validarMontagem sinPi (Some 20) [10] (Some 41) c)"
  by (simp add: validarMontagem_def Let_def)

lemma tipo_cadeia:
  "tipo (validarMontagem sinPi (Some Ns) (p1 # p2 # ps) (Some Na) c) =
     (if Na > Ns + 2 * sum_list (p1 # p2 # ps) then Impossivel
      else if Na = Ns + 2 * sum_list (p1 # p2 # ps) then Reto else Curvo)"
  by (cases ps) (simp_all add: validarMontagem_def Let_def foldl_add_sum_list)

lemma valido_cadeia:
  "valido (validarMontagem sinPi (Some Ns) (p1 # p2 # ps) (Some Na) c) =
     (Na \<le> Ns + 2 * sum_list (p1 # p2 # ps))"
  by (cases ps) (auto simp add: validarMontagem_def Let_def foldl_add_sum_list)

text \<open>
  Claim C4, amended. With a sun, a chain of two or more planets and a ring, and
  \<open>L = Ns + 2 * (Np1 + ... + Npk)\<close>: the stage is impossible exactly when \<open>Na > L\<close>,
  straight exactly when \<open>Na = L\<close>, curved exactly when \<open>Na < L\<close>, and valid exactly
  when \<open>Na \<le> L\<close>. For \<open>Ns = 30\<close>, \<open>Np = [10, 10]\<close> the limit is 70: straight at
  \<open>Na = 70\<close>, curved at 55, 60 and 61, impossible at 71.
\<close>

theorem validar_cadeia:
  "(tipo (validarMontagem sinPi (Some Ns) (p1 # p2 # ps) (Some Na) c) = Impossivel)
      = (Na > Ns + 2 * sum_list (p1 # p2 # ps))
   \<and> (tipo (validarMontagem sinPi (Some Ns) (p1 # p2 # ps) (Some Na) c) = Reto)
      = (Na = Ns + 2 * sum_list (p1 # p2 # ps))
   \<and> (tipo (validarMontagem sinPi (Some Ns) (p1 # p2 # ps) (Some Na) c) = Curvo)
      = (Na < Ns + 2 * sum_list (p1 # p2 # ps))
   \<and> valido (validarMontagem sinPi (Some Ns) (p1 # p2 # ps) (Some Na) c)
      = (Na \<le> Ns + 2 * sum_list (p1 # p2 # ps))
   \<and> tipo (validarMontagem sinPi (Some 30) [10, 10] (Some 70) c) = Reto
   \<and> tipo (validarMontagem sinPi (Some 30) [10, 10] (Some 55) c) = Curvo
   \<and> tipo (validarMontagem sinPi (Some 30) [10, 10] (Some 60) c) = Curvo
   \<and> tipo (validarMontagem sinPi (Some 30) [10, 10] (Some 61) c) = Curvo
   \<and> tipo (validarMontagem sinPi (Some 30) [10, 10] (Some 71) c) = Impossivel"
  unfolding tipo_cadeia valido_cadeia by auto

text \<open>
  Claim C10. \<open>validarMontagem\<close> is a total function of its four arguments, whatever
  the platform's sine: no branch of the source throws, and every array read is
  guarded by the length test before it. In its result \<open>valido\<close> is true exactly when
  \<open>tipo\<close> is \<open>reto\<close>, \<open>curvo\<close> or \<open>aberta\<close>, and false exactly when \<open>tipo\<close> is
  \<open>impossivel\<close>.
\<close>

theorem validar_acoplamento:
  "valido (validarMontagem sinPi Ns Np Na c) = (tipo (validarMontagem sinPi Ns Np Na c) \<in> {Reto, Curvo, Aberta})
   \<and> (\<not> valido (validarMontagem sinPi Ns Np Na c)) = (tipo (validarMontagem sinPi Ns Np Na c) = Impossivel)"
  by (auto simp add: validarMontagem_def Let_def split: option.splits)

text \<open>
  Claim C4, as stated, gives the instance \<open>Ns = 30\<close>, \<open>Np = [10, 10]\<close> the limit 60.
  The limit is \<open>30 + 2 * (10 + 10) = 70\<close>: at \<open>Na = 60\<close> the stage is curved, not
  straight, and at \<open>Na = 61\<close> it is curved, not impossible. With a sun the validator
  does not call the sine; the instances below pass it the real one.
\<close>

theorem validar_cadeia_counterexample:
  "tipo (validarMontagem (\<lambda>copies. sin (pi / copies)) (Some 30) [10, 10] (Some 60) 1) \<noteq> Reto
   \<and> tipo (validarMontagem (\<lambda>copies. sin (pi / copies)) (Some 30) [10, 10] (Some 61) 1) \<noteq> Impossivel"
  by (simp add: validarMontagem_def Let_def)

text \<open>
  The instance of the claim with the limit 60 is the sun of 20 teeth: straight at
  \<open>Na = 60\<close>, curved at 55, impossible at 61.
\<close>

theorem validar_cadeia_witness:
  "tipo (validarMontagem (\<lambda>copies. sin (pi / copies)) (Some 20) [10, 10] (Some 60) 1) = Reto
   \<and> tipo (validarMontagem (\<lambda>copies. sin (pi / copies)) (Some 20) [10, 10] (Some 55) 1) = Curvo
   \<and> tipo (validarMontagem (\<lambda>copies. sin (pi / copies)) (Some 20) [10, 10] (Some 61) 1) = Impossivel"
  using validar_cadeia [of "\<lambda>copies. sin (pi / copies)" 20 10 10 "[]" 60 1]
    validar_cadeia [of "\<lambda>copies. sin (pi / copies)" 20 10 10 "[]" 55 1]
    validar_cadeia [of "\<lambda>copies. sin (pi / copies)" 20 10 10 "[]" 61 1]
  by simp











section \<open>The copy angles: theorems\<close>

lemma TAU_pos: "0 < TAU"
  by (simp add: TAU_def)

lemma js_rem_nonneg:
  assumes "0 < b" "0 \<le> a"
  shows "0 \<le> js_rem a b \<and> js_rem a b < b"
proof -
  have q: "0 \<le> a / b" using assms by simp
  have ab: "b * (a / b) = a" using assms(1) by simp
  have "b * of_int \<lfloor>a / b\<rfloor> \<le> b * (a / b)"
    using assms(1) by (intro mult_left_mono) simp_all
  then have l: "b * of_int \<lfloor>a / b\<rfloor> \<le> a" using ab by simp
  have "a / b < of_int \<lfloor>a / b\<rfloor> + 1" by linarith
  then have "b * (a / b) < b * (of_int \<lfloor>a / b\<rfloor> + 1)"
    using assms(1) by (intro mult_strict_left_mono) simp_all
  then have u: "a < b * (of_int \<lfloor>a / b\<rfloor> + 1)" using ab by simp
  show ?thesis
    using l u q by (simp add: js_rem_def js_trunc_def algebra_simps)
qed

lemma js_rem_neg:
  assumes "0 < b" "a < 0"
  shows "- b < js_rem a b \<and> js_rem a b \<le> 0"
proof -
  have "a / b < 0" using assms by (rule_tac divide_neg_pos)
  then have q: "\<not> 0 \<le> a / b" by simp
  have ab: "b * (a / b) = a" using assms(1) by simp
  have "b * (a / b) \<le> b * of_int \<lceil>a / b\<rceil>"
    using assms(1) by (intro mult_left_mono) simp_all
  then have l: "a \<le> b * of_int \<lceil>a / b\<rceil>" using ab by simp
  have "of_int \<lceil>a / b\<rceil> - 1 < a / b" by linarith
  then have "b * (of_int \<lceil>a / b\<rceil> - 1) < b * (a / b)"
    using assms(1) by (intro mult_strict_left_mono) simp_all
  then have u: "b * (of_int \<lceil>a / b\<rceil> - 1) < a" using ab by simp
  show ?thesis
    using l u q by (simp add: js_rem_def js_trunc_def algebra_simps)
qed

lemma mod2pi_range: "0 \<le> mod2pi a \<and> mod2pi a < TAU"
proof (cases "0 \<le> a")
  case True
  then show ?thesis
    using js_rem_nonneg [OF TAU_pos, of a] by (simp add: mod2pi_def Let_def)
next
  case False
  then show ?thesis
    using js_rem_neg [OF TAU_pos, of a] TAU_pos by (auto simp add: mod2pi_def Let_def)
qed

lemma mod2pi_id:
  assumes "0 \<le> a" "a < TAU"
  shows "mod2pi a = a"
proof -
  have "0 \<le> a / TAU" "a / TAU < 1" using assms TAU_pos by simp_all
  then have "\<lfloor>a / TAU\<rfloor> = 0" by linarith
  then show ?thesis
    using assms by (simp add: mod2pi_def Let_def js_rem_def js_trunc_def)
qed

lemma mod2pi_shift: "\<exists>j::int. mod2pi a = a - of_int j * TAU"
proof (cases "js_rem a TAU < 0")
  case True
  then have "mod2pi a = a - of_int (js_trunc (a / TAU) - 1) * TAU"
    by (simp add: mod2pi_def Let_def js_rem_def algebra_simps)
  then show ?thesis by blast
next
  case False
  then have "mod2pi a = a - of_int (js_trunc (a / TAU)) * TAU"
    by (simp add: mod2pi_def Let_def js_rem_def algebra_simps)
  then show ?thesis by blast
qed

lemma clampCopies_range: "1 \<le> clampCopies x \<and> clampCopies x \<le> 5"
proof -
  define z where "z = max 1 (min 5 \<lfloor>or_one x + 1 / 2\<rfloor>)"
  have "1 \<le> z" "z \<le> 5" by (simp_all add: z_def)
  then have "1 \<le> nat z \<and> nat z \<le> 5" by linarith
  then show ?thesis by (simp add: clampCopies_def z_def)
qed

lemma clampCopies_idem: "clampCopies (real (clampCopies x)) = clampCopies x"
proof -
  define n where "n = clampCopies x"
  have r: "1 \<le> n" "n \<le> 5" using clampCopies_range [of x] by (simp_all add: n_def)
  then have nz: "real n \<noteq> 0" by simp
  have "\<lfloor>real n + 1 / 2\<rfloor> = int n" by linarith
  then show ?thesis
    using r nz unfolding n_def [symmetric] by (simp add: clampCopies_def or_one_def)
qed

lemma length_computeArmAngles:
  "length (computeArmAngles Nraw zs zr pz) = clampCopies Nraw"
  using clampCopies_range [of Nraw]
  by (auto simp add: computeArmAngles_def Let_def equalSpacing_def split: option.splits)

lemma equalSpacing_range:
  assumes "a \<in> set (equalSpacing N)"
  shows "0 \<le> a \<and> a < TAU"
proof -
  from assms obtain i where i: "i < N" "a = (TAU * real i) / real N"
    by (auto simp add: equalSpacing_def)
  then have "0 < real N" "real i < real N" by simp_all
  then have "real i / real N < 1" by simp
  then have "TAU * (real i / real N) < TAU * 1"
    using TAU_pos by (intro mult_strict_left_mono) simp_all
  moreover have "0 \<le> TAU * (real i / real N)" using TAU_pos by simp
  ultimately show ?thesis using i by simp
qed

lemma computeArmAngles_range:
  assumes "a \<in> set (computeArmAngles Nraw zs zr pz)"
  shows "0 \<le> a \<and> a < TAU"
  using assms equalSpacing_range mod2pi_range TAU_pos
  by (auto simp add: computeArmAngles_def Let_def tickAngle_def split: option.splits if_splits)


lemma round_near: "\<bar>js_round q - q\<bar> \<le> 1 / 2"
  unfolding js_round_def by linarith

lemma round_step:
  assumes "q + 1 \<le> q'"
  shows "js_round q + 1 \<le> js_round q'"
proof -
  have "\<lfloor>q + 1 / 2\<rfloor> + 1 = \<lfloor>(q + 1) + 1 / 2\<rfloor>" by linarith
  also have "\<dots> \<le> \<lfloor>q' + 1 / 2\<rfloor>" using assms by (intro floor_mono) simp
  finally have "\<lfloor>q + 1 / 2\<rfloor> + 1 \<le> \<lfloor>q' + 1 / 2\<rfloor>" .
  then have "real_of_int (\<lfloor>q + 1 / 2\<rfloor> + 1) \<le> real_of_int \<lfloor>q' + 1 / 2\<rfloor>"
    by (simp only: of_int_le_iff)
  then show ?thesis by (simp add: js_round_def)
qed

lemma target_over_tick:
  assumes "0 < Z" "0 < N"
  shows "((TAU * real m) / real N) / (TAU / Z) = real m * Z / real N"
  using assms TAU_pos by (simp add: field_simps)

lemma tick_times:
  assumes "0 < Z"
  shows "(real m * Z / real N) * (TAU / Z) = (TAU * real m) / real N"
  using assms by (simp add: field_simps)

lemma tick_nearest:
  assumes "0 < Z" "0 < N"
  shows "\<bar>js_round (((TAU * real m) / real N) / (TAU / Z)) * (TAU / Z) - (TAU * real m) / real N\<bar>
           \<le> (TAU / Z) / 2"
proof -
  define q where "q = real m * Z / real N"
  define t where "t = TAU / Z"
  have th: "0 < t" using assms TAU_pos by (simp add: t_def)
  have "js_round q * t - q * t = (js_round q - q) * t"
    by (simp add: left_diff_distrib)
  then have "\<bar>js_round q * t - q * t\<bar> = \<bar>js_round q - q\<bar> * t"
    using th by (simp add: abs_mult)
  also have "\<dots> \<le> (1 / 2) * t"
    using round_near [of q] th by (intro mult_right_mono) simp_all
  finally have "\<bar>js_round q * t - q * t\<bar> \<le> t / 2" by simp
  then show ?thesis
    unfolding target_over_tick [OF assms] q_def t_def tick_times [OF assms(1)] .
qed

lemma js_round_is_int: "\<exists>k::int. js_round q = of_int k"
  unfolding js_round_def by blast

lemma tickAngle_general:
  assumes "0 < Z" "0 < N"
  shows "\<exists>(k::int) (j::int).
           tickAngle (TAU / Z) N m = of_int k * (TAU / Z) - of_int j * TAU
           \<and> \<bar>of_int k * (TAU / Z) - (TAU * real m) / real N\<bar> \<le> (TAU / Z) / 2"
proof -
  obtain k :: int where k: "js_round (((TAU * real m) / real N) / (TAU / Z)) = of_int k"
    using js_round_is_int by blast
  obtain j :: int where j: "mod2pi (of_int k * (TAU / Z)) = of_int k * (TAU / Z) - of_int j * TAU"
    using mod2pi_shift by blast
  have "tickAngle (TAU / Z) N m = of_int k * (TAU / Z) - of_int j * TAU"
    using k j by (simp add: tickAngle_def Let_def)
  moreover have "\<bar>of_int k * (TAU / Z) - (TAU * real m) / real N\<bar> \<le> (TAU / Z) / 2"
    using tick_nearest [OF assms, of m] k by simp
  ultimately show ?thesis by blast
qed

lemma tickAngle_nowrap:
  assumes "real N \<le> Z" "0 < N" "m < N"
  shows "tickAngle (TAU / Z) N m = js_round (real m * Z / real N) * (TAU / Z)
         \<and> 0 \<le> js_round (real m * Z / real N)"
proof -
  have Z: "0 < Z" using assms by linarith
  define q where "q = real m * Z / real N"
  have q0: "0 \<le> q" using Z by (simp add: q_def)
  have "real m + 1 \<le> real N" using assms(3) by simp
  then have "(real m + 1) * Z \<le> real N * Z" using Z by (intro mult_right_mono) simp_all
  then have "real m * Z + real N \<le> real N * Z" using assms(1) by (simp add: algebra_simps)
  then have "(real m * Z + real N) / real N \<le> (real N * Z) / real N"
    using assms(2) by (intro divide_right_mono) simp_all
  then have q1: "q + 1 \<le> Z" using assms(2) by (simp add: q_def add_divide_distrib)
  have r0: "0 \<le> js_round q" unfolding js_round_def using q0 by simp
  have "js_round q \<le> q + 1 / 2" unfolding js_round_def by linarith
  then have rZ: "js_round q < Z" using q1 by linarith
  have th: "0 < TAU / Z" using Z TAU_pos by simp
  have "js_round q * (TAU / Z) < Z * (TAU / Z)"
    using rZ th by (intro mult_strict_right_mono)
  then have u: "js_round q * (TAU / Z) < TAU" using Z by simp
  have l: "0 \<le> js_round q * (TAU / Z)" using r0 th by (intro mult_nonneg_nonneg) simp_all
  have "tickAngle (TAU / Z) N m = mod2pi (js_round q * (TAU / Z))"
    using target_over_tick [OF Z assms(2), of m] by (simp add: tickAngle_def Let_def q_def)
  then show ?thesis using mod2pi_id [OF l u] r0 by (simp add: q_def)
qed

lemma tickAngle_strict:
  assumes "real N \<le> Z" "0 < N" "m < m'" "m' < N"
  shows "tickAngle (TAU / Z) N m < tickAngle (TAU / Z) N m'"
proof -
  have Z: "0 < Z" using assms by linarith
  have th: "0 < TAU / Z" using Z TAU_pos by simp
  have m: "m < N" using assms by simp
  have "real m + 1 \<le> real m'" using assms(3) by simp
  then have "(real m + 1) * Z \<le> real m' * Z" using Z by (intro mult_right_mono) simp_all
  then have "real m * Z + real N \<le> real m' * Z" using assms(1) by (simp add: algebra_simps)
  then have "(real m * Z + real N) / real N \<le> (real m' * Z) / real N"
    using assms(2) by (intro divide_right_mono) simp_all
  then have "real m * Z / real N + 1 \<le> real m' * Z / real N"
    using assms(2) by (simp add: add_divide_distrib)
  then have "js_round (real m * Z / real N) + 1 \<le> js_round (real m' * Z / real N)"
    by (rule round_step)
  then have "js_round (real m * Z / real N) < js_round (real m' * Z / real N)" by linarith
  then have "js_round (real m * Z / real N) * (TAU / Z) < js_round (real m' * Z / real N) * (TAU / Z)"
    using th by (intro mult_strict_right_mono)
  then show ?thesis
    using tickAngle_nowrap [OF assms(1,2) m] tickAngle_nowrap [OF assms(1,2,4)] by simp
qed

lemma tickAngle_distinct:
  assumes "real N \<le> Z" "0 < N"
  shows "distinct (map (tickAngle (TAU / Z) N) [0..<N])"
proof -
  have "inj_on (tickAngle (TAU / Z) N) {0..<N}"
  proof (rule inj_onI)
    fix x y assume xy: "x \<in> {0..<N}" "y \<in> {0..<N}"
      and e: "tickAngle (TAU / Z) N x = tickAngle (TAU / Z) N y"
    show "x = y"
    proof (rule ccontr)
      assume "x \<noteq> y"
      then consider "x < y" | "y < x" by linarith
      then show False
      proof cases
        case 1
        then show False using tickAngle_strict [OF assms 1] xy e by simp
      next
        case 2
        then show False using tickAngle_strict [OF assms 2] xy e by simp
      qed
    qed
  qed
  then show ?thesis by (simp add: distinct_map)
qed


lemma Z_eff_nonneg: "0 \<le> Z_eff_of zs zr pz"
  by (simp add: Z_eff_of_def Let_def)

lemma computeArmAngles_ticks:
  assumes "1 < clampCopies Nraw" "Z_eff_of zs zr pz \<noteq> 0"
  shows "computeArmAngles Nraw (Some zs) (Some zr) pz =
           map (tickAngle (TAU / Z_eff_of zs zr pz) (clampCopies Nraw)) [0..<clampCopies Nraw]"
  using assms by (simp add: computeArmAngles_def Let_def)

lemma computeArmAngles_one:
  assumes "clampCopies Nraw = 1"
  shows "computeArmAngles Nraw zs zr pz = [0]"
  using assms by (simp add: computeArmAngles_def Let_def)

lemma armAngles_general:
  assumes "Z_eff_of zs zr pz \<noteq> 0" "m < clampCopies Nraw"
  shows "\<exists>(k::int) (j::int).
           computeArmAngles Nraw (Some zs) (Some zr) pz ! m
             = of_int k * (TAU / Z_eff_of zs zr pz) - of_int j * TAU
           \<and> \<bar>of_int k * (TAU / Z_eff_of zs zr pz) - (TAU * real m) / real (clampCopies Nraw)\<bar>
               \<le> (TAU / Z_eff_of zs zr pz) / 2"
proof (cases "1 < clampCopies Nraw")
  case True
  have Z: "0 < Z_eff_of zs zr pz" using assms(1) Z_eff_nonneg [of zs zr pz] by linarith
  have N: "0 < clampCopies Nraw" using True by simp
  show ?thesis
    using tickAngle_general [OF Z N, of m] assms(2)
    by (simp add: computeArmAngles_ticks [OF True assms(1)])
next
  case False
  then have one: "clampCopies Nraw = 1" using clampCopies_range [of Nraw] by linarith
  then have m: "m = 0" using assms(2) by simp
  have Z: "0 < Z_eff_of zs zr pz" using assms(1) Z_eff_nonneg [of zs zr pz] by linarith
  have "computeArmAngles Nraw (Some zs) (Some zr) pz ! m
          = of_int 0 * (TAU / Z_eff_of zs zr pz) - of_int 0 * TAU
        \<and> \<bar>of_int 0 * (TAU / Z_eff_of zs zr pz) - (TAU * real m) / real (clampCopies Nraw)\<bar>
               \<le> (TAU / Z_eff_of zs zr pz) / 2"
    using Z TAU_pos by (simp add: computeArmAngles_one [OF one] m)
  then show ?thesis by blast
qed

lemma armAngles_nowrap:
  assumes "real (clampCopies Nraw) \<le> Z_eff_of zs zr pz" "m < clampCopies Nraw"
  shows "\<exists>k::int.
           computeArmAngles Nraw (Some zs) (Some zr) pz ! m = of_int k * (TAU / Z_eff_of zs zr pz)
           \<and> \<bar>computeArmAngles Nraw (Some zs) (Some zr) pz ! m
                 - (TAU * real m) / real (clampCopies Nraw)\<bar> \<le> (TAU / Z_eff_of zs zr pz) / 2"
proof -
  have N: "0 < clampCopies Nraw" using clampCopies_range [of Nraw] by linarith
  have Z: "0 < Z_eff_of zs zr pz" using assms(1) N by linarith
  then have Zn: "Z_eff_of zs zr pz \<noteq> 0" by simp
  show ?thesis
  proof (cases "1 < clampCopies Nraw")
    case True
    obtain k :: int where k:
      "js_round (real m * Z_eff_of zs zr pz / real (clampCopies Nraw)) = of_int k"
      using js_round_is_int by blast
    have e: "computeArmAngles Nraw (Some zs) (Some zr) pz ! m
               = tickAngle (TAU / Z_eff_of zs zr pz) (clampCopies Nraw) m"
      using assms(2) by (simp add: computeArmAngles_ticks [OF True Zn])
    have a: "tickAngle (TAU / Z_eff_of zs zr pz) (clampCopies Nraw) m
               = of_int k * (TAU / Z_eff_of zs zr pz)"
      using tickAngle_nowrap [OF assms(1) N assms(2)] k by simp
    have "\<bar>of_int k * (TAU / Z_eff_of zs zr pz) - (TAU * real m) / real (clampCopies Nraw)\<bar>
            \<le> (TAU / Z_eff_of zs zr pz) / 2"
      using tick_nearest [OF Z N, of m] k target_over_tick [OF Z N, of m] by simp
    then show ?thesis using e a by auto
  next
    case False
    then have one: "clampCopies Nraw = 1" using clampCopies_range [of Nraw] by linarith
    then have m: "m = 0" using assms(2) by simp
    have "computeArmAngles Nraw (Some zs) (Some zr) pz ! m
            = of_int 0 * (TAU / Z_eff_of zs zr pz)
          \<and> \<bar>computeArmAngles Nraw (Some zs) (Some zr) pz ! m
                 - (TAU * real m) / real (clampCopies Nraw)\<bar> \<le> (TAU / Z_eff_of zs zr pz) / 2"
      using Z TAU_pos by (simp add: computeArmAngles_one [OF one] m)
    then show ?thesis by blast
  qed
qed

lemma armAngles_distinct:
  assumes "real (clampCopies Nraw) \<le> Z_eff_of zs zr pz"
  shows "distinct (computeArmAngles Nraw (Some zs) (Some zr) pz)"
proof (cases "1 < clampCopies Nraw")
  case True
  have N: "0 < clampCopies Nraw" using True by simp
  have Zn: "Z_eff_of zs zr pz \<noteq> 0" using assms N by auto
  show ?thesis
    using tickAngle_distinct [OF assms N] by (simp add: computeArmAngles_ticks [OF True Zn])
next
  case False
  then have one: "clampCopies Nraw = 1" using clampCopies_range [of Nraw] by linarith
  show ?thesis by (simp add: computeArmAngles_one [OF one])
qed

text \<open>
  Claim C5, amended. With sun and ring present and \<open>N\<close> the clamped number of
  copies, \<open>copyAngles\<close> has \<open>N\<close> entries, all in \<open>[0, 2\<pi>)\<close>, and is \<open>[0]\<close> for
  \<open>N = 1\<close>. When \<open>Z_eff \<noteq> 0\<close>, entry \<open>m\<close> is, up to a multiple of \<open>2\<pi>\<close>, a multiple
  of the tick \<open>2\<pi> / Z_eff\<close> nearest to the target \<open>2\<pi> * m / N\<close>. When \<open>Z_eff \<ge> N\<close>,
  the entries are pairwise distinct and entry \<open>m\<close> is itself a multiple of the
  tick nearest to its target.
\<close>

theorem computeArmAngles_copyAngles:
  "length (computeArmAngles Nraw (Some zs) (Some zr) pz) = clampCopies Nraw
   \<and> (\<forall>a \<in> set (computeArmAngles Nraw (Some zs) (Some zr) pz). 0 \<le> a \<and> a < 2 * pi)
   \<and> (clampCopies Nraw = 1 \<longrightarrow> computeArmAngles Nraw (Some zs) (Some zr) pz = [0])
   \<and> (Z_eff_of zs zr pz \<noteq> 0 \<longrightarrow>
        (\<forall>m < clampCopies Nraw. \<exists>(k::int) (j::int).
           computeArmAngles Nraw (Some zs) (Some zr) pz ! m
             = of_int k * (2 * pi / Z_eff_of zs zr pz) - of_int j * (2 * pi)
           \<and> \<bar>of_int k * (2 * pi / Z_eff_of zs zr pz)
                - (2 * pi * real m) / real (clampCopies Nraw)\<bar>
               \<le> (2 * pi / Z_eff_of zs zr pz) / 2))
   \<and> (real (clampCopies Nraw) \<le> Z_eff_of zs zr pz \<longrightarrow>
        distinct (computeArmAngles Nraw (Some zs) (Some zr) pz)
        \<and> (\<forall>m < clampCopies Nraw. \<exists>k::int.
             computeArmAngles Nraw (Some zs) (Some zr) pz ! m
               = of_int k * (2 * pi / Z_eff_of zs zr pz)
             \<and> \<bar>computeArmAngles Nraw (Some zs) (Some zr) pz ! m
                   - (2 * pi * real m) / real (clampCopies Nraw)\<bar>
                 \<le> (2 * pi / Z_eff_of zs zr pz) / 2))"
proof -
  have t: "2 * pi = TAU" by (simp add: TAU_def)
  show ?thesis
    unfolding t
    using length_computeArmAngles [of Nraw "Some zs" "Some zr" pz]
      computeArmAngles_range [of _ Nraw "Some zs" "Some zr" pz]
      computeArmAngles_one [of Nraw "Some zs" "Some zr" pz]
      armAngles_general [of zs zr pz _ Nraw]
      armAngles_nowrap [of Nraw zs zr pz]
      armAngles_distinct [of Nraw zs zr pz]
    by blast
qed

lemma floor_7_6: "\<lfloor>(7::real) / 6\<rfloor> = 1" by linarith
lemma floor_11_6: "\<lfloor>(11::real) / 6\<rfloor> = 1" by linarith
lemma floor_7_2: "\<lfloor>(7::real) / 2\<rfloor> = 3" by linarith

lemma clampCopies_3: "clampCopies 3 = 3"
  using floor_7_2 by (simp add: clampCopies_def or_one_def)

text \<open>
  Claim C5, as stated, fails for a small effective tooth count: with a sun of 20
  teeth, a ring of 22 and two planets, \<open>Z_eff = 2\<close>, and three copies stand at
  \<open>0\<close>, \<open>\<pi>\<close> and \<open>\<pi>\<close>.
\<close>

theorem computeArmAngles_counterexample:
  "Z_eff_of 20 22 [10, 10] \<noteq> 0
   \<and> \<not> distinct (computeArmAngles 3 (Some 20) (Some 22) [10, 10])"
proof -
  have z: "Z_eff_of 20 22 [10, 10] = 2" by (simp add: Z_eff_of_def Let_def)
  have p: "mod2pi pi = pi"
    by (rule mod2pi_id) (simp_all add: TAU_def)
  have t1: "tickAngle (TAU / 2) 3 1 = pi"
    using floor_7_6 p by (simp add: tickAngle_def Let_def js_round_def TAU_def)
  have t2: "tickAngle (TAU / 2) 3 2 = pi"
    using floor_11_6 p by (simp add: tickAngle_def Let_def js_round_def TAU_def)
  have u: "[0..<3] = [0, 1, 2]" by (simp add: upt_rec)
  have "computeArmAngles 3 (Some 20) (Some 22) [10, 10]
          = [tickAngle (TAU / 2) 3 0, tickAngle (TAU / 2) 3 1, tickAngle (TAU / 2) 3 2]"
    by (simp add: computeArmAngles_def Let_def clampCopies_3 z u)
  then show ?thesis using t1 t2 z by simp
qed

lemma clampCopies_1: "clampCopies 1 = 1"
proof -
  have "\<lfloor>(3::real) / 2\<rfloor> = 1" by linarith
  then show ?thesis by (simp add: clampCopies_def or_one_def)
qed

text \<open>
  A sun of 20 teeth, a ring of 60 and one planet: \<open>Z_eff = 80\<close>.
\<close>

theorem computeArmAngles_witness:
  "computeArmAngles 1 (Some 20) (Some 60) [20] = [0]
   \<and> distinct (computeArmAngles 3 (Some 20) (Some 60) [20])"
proof -
  have z: "Z_eff_of 20 60 [20] = 80" by (simp add: Z_eff_of_def Let_def)
  show ?thesis
    using computeArmAngles_copyAngles [of 1 20 60 "[20]"]
      computeArmAngles_copyAngles [of 3 20 60 "[20]"]
    by (simp add: clampCopies_1 clampCopies_3 z)
qed

section \<open>The chain loop of \<open>computeStagePhasing\<close>: theorems\<close>

lemma length_normalizePositions: "length (fst (normalizePositions ps)) = length ps"
  by (simp add: normalizePositions_def Let_def)

lemma forwardLoop_returns:
  assumes "length pZ \<le> length np"
  shows "\<exists>st. forwardLoop sZ pZ np ca N k (pp, ap) = Inr st"
  using assms
proof (induction "length pZ - k" arbitrary: k pp ap)
  case 0
  then have "\<not> k < length pZ" by simp
  then show ?case by (subst forwardLoop.simps) simp
next
  case (Suc d)
  then have k: "k < length pZ" "k < length np" by simp_all
  have d: "d = length pZ - Suc k" using Suc.hyps(2) by simp
  show ?case
    using k Suc.hyps(1) [OF d Suc.prems]
    by (subst forwardLoop.simps) (simp add: Let_def)
qed

lemma forwardLoop_throws:
  assumes "k \<le> length np" "length np < length pZ"
  shows "forwardLoop sZ pZ np ca N k (pp, ap) = Inl TypeError"
  using assms
proof (induction "length np - k" arbitrary: k pp ap)
  case 0
  then have "k = length np" by simp
  then show ?case using "0.prems" by (subst forwardLoop.simps) simp
next
  case (Suc d)
  then have k: "k < length pZ" "k < length np" by simp_all
  have d: "d = length np - Suc k" using Suc.hyps(2) by simp
  have k': "Suc k \<le> length np" using k by simp
  show ?case
    using k Suc.hyps(1) [OF d k' Suc.prems(2)]
    by (subst forwardLoop.simps) (simp add: Let_def)
qed

lemma chainPhases_throws:
  assumes "planetsZ inp \<noteq> []" "length np < length (planetsZ inp)"
  shows "chainPhases inp N ca np = Inl TypeError"
proof -
  have l: "1 \<le> length (planetsZ inp)" using assms(1) by (cases "planetsZ inp") simp_all
  have "forwardLoop (solarZ inp) (planetsZ inp) np ca N 0 (pp, ap) = Inl TypeError" for pp ap
    using assms(2) by (intro forwardLoop_throws) simp_all
  then show ?thesis using l by (simp add: chainPhases_def Let_def)
qed

lemma chainPhases_returns:
  assumes "length (planetsZ inp) \<le> length np"
  shows "\<exists>st. chainPhases inp N ca np = Inr st"
proof (cases "1 \<le> length (planetsZ inp)")
  case True
  have "\<exists>st. forwardLoop (solarZ inp) (planetsZ inp) np ca N 0 (pp, ap) = Inr st" for pp ap
    using assms by (rule forwardLoop_returns)
  then show ?thesis using True by (simp add: chainPhases_def Let_def)
next
  case False
  then show ?thesis by (simp add: chainPhases_def)
qed

text \<open>
  Claim C9. \<open>computeStagePhasing\<close> returns only under the precondition
  \<open>positions.length \<ge> planetsZ.length\<close>: with a chain that is not empty and fewer
  positions than planets, the read of \<open>normPositions[k]\<close> gives \<open>undefined\<close> and
  \<open>currPos[0]\<close> throws a TypeError; with at least as many positions as planets the
  function returns a phasing result.
\<close>

theorem computeStagePhasing_precondition:
  "(planetsZ inp \<noteq> [] \<and> length (positions inp) < length (planetsZ inp)
      \<longrightarrow> computeStagePhasing inp = Inl TypeError)
   \<and> (length (planetsZ inp) \<le> length (positions inp)
      \<longrightarrow> (\<exists>out. computeStagePhasing inp = Inr out))"
proof (intro conjI impI)
  assume a: "planetsZ inp \<noteq> [] \<and> length (positions inp) < length (planetsZ inp)"
  have "chainPhases inp N ca (fst (normalizePositions (positions inp))) = Inl TypeError" for N ca
    using a by (intro chainPhases_throws) (simp_all add: length_normalizePositions)
  then show "computeStagePhasing inp = Inl TypeError"
    by (simp add: computeStagePhasing_def Let_def)
next
  assume a: "length (planetsZ inp) \<le> length (positions inp)"
  obtain st where
    "chainPhases inp (clampCopies (copies inp))
       (computeArmAngles (real (clampCopies (copies inp))) (solarZ inp) (annulusZ inp)
          (planetsZ inp))
       (fst (normalizePositions (positions inp))) = Inr st"
    using chainPhases_returns [of inp "fst (normalizePositions (positions inp))"] a
    unfolding length_normalizePositions by blast
  then show "\<exists>out. computeStagePhasing inp = Inr out"
    by (simp add: computeStagePhasing_def Let_def)
qed

text \<open>
  The default stage of the editor (sun 40, planet 20, ring 80, three copies), first
  without any position, then with the position of its planet.
\<close>

theorem computeStagePhasing_precondition_witness:
  "computeStagePhasing \<lparr>stageId = 1, solarZ = Some 40, annulusZ = Some 80, planetsZ = [20],
      copies = 3, positions = []\<rparr> = Inl TypeError
   \<and> (\<exists>out. computeStagePhasing \<lparr>stageId = 1, solarZ = Some 40, annulusZ = Some 80,
         planetsZ = [20], copies = 3, positions = [(30, 0)]\<rparr> = Inr out)"
  using computeStagePhasing_precondition [of "\<lparr>stageId = 1, solarZ = Some 40, annulusZ = Some 80,
      planetsZ = [20], copies = 3, positions = []\<rparr>"]
    computeStagePhasing_precondition [of "\<lparr>stageId = 1, solarZ = Some 40, annulusZ = Some 80,
      planetsZ = [20], copies = 3, positions = [(30, 0)]\<rparr>"]
  by simp

section \<open>The kinematic solver: theorems\<close>

lemma length_row_add: "length (row_add row idx x) = length row"
  by (simp add: row_add_def split: option.splits)

lemma length_row_put: "length (row_put row idx x) = length row"
  by (simp add: row_put_def split: option.splits)

lemma lookupN_unresolved:
  "unresolved model v \<Longrightarrow>
     lookupN model v = Inl (ElementoNaoEncontrado v) \<or> lookupN model v = Inl (ElementoSemN v)"
  by (auto simp add: unresolved_def lookupN_def split: option.splits)

lemma lookupN_resolved: "\<not> unresolved model v \<Longrightarrow> \<exists>n. lookupN model v = Inr n"
  by (auto simp add: unresolved_def lookupN_def split: option.splits)

lemma meshRow_resolved:
  assumes "\<not> unresolved model (mesh_i m)" "\<not> unresolved model (mesh_j m)"
  shows "\<exists>r. meshRow model vl m = Inr r \<and> length (row_A r) = length vl"
proof -
  obtain Ni Nj where "lookupN model (mesh_i m) = Inr Ni" "lookupN model (mesh_j m) = Inr Nj"
    using assms lookupN_resolved by blast
  then show ?thesis by (simp add: meshRow_def Let_def length_row_add)
qed

lemma meshRow_unresolved:
  assumes "unresolved model (mesh_i m) \<or> unresolved model (mesh_j m)"
  shows "\<exists>x. meshRow model vl m = Inl (ElementoNaoEncontrado x)
             \<or> meshRow model vl m = Inl (ElementoSemN x)"
proof (cases "unresolved model (mesh_i m)")
  case True
  then show ?thesis
    using lookupN_unresolved [OF True] by (auto simp add: meshRow_def)
next
  case False
  then have j: "unresolved model (mesh_j m)" using assms by simp
  obtain Ni where "lookupN model (mesh_i m) = Inr Ni"
    using False lookupN_resolved by blast
  then show ?thesis
    using lookupN_unresolved [OF j] by (auto simp add: meshRow_def)
qed

lemma meshRows_resolved:
  assumes "\<forall>m \<in> set ms. \<not> unresolved model (mesh_i m) \<and> \<not> unresolved model (mesh_j m)"
  shows "\<exists>rs. meshRows model vl ms = Inr rs \<and> length rs = length ms
              \<and> (\<forall>r \<in> set rs. length (row_A r) = length vl)"
  using assms
proof (induction ms)
  case Nil
  then show ?case by simp
next
  case (Cons m ms)
  obtain r where r: "meshRow model vl m = Inr r" "length (row_A r) = length vl"
    using meshRow_resolved [of model m vl] Cons.prems by auto
  obtain rs where rs: "meshRows model vl ms = Inr rs" "length rs = length ms"
      "\<forall>r \<in> set rs. length (row_A r) = length vl"
    using Cons by auto
  show ?case using r rs by simp
qed

lemma meshRows_unresolved:
  assumes "\<exists>m \<in> set ms. unresolved model (mesh_i m) \<or> unresolved model (mesh_j m)"
  shows "\<exists>x. meshRows model vl ms = Inl (ElementoNaoEncontrado x)
             \<or> meshRows model vl ms = Inl (ElementoSemN x)"
  using assms
proof (induction ms)
  case Nil
  then show ?case by simp
next
  case (Cons m ms)
  show ?case
  proof (cases "unresolved model (mesh_i m) \<or> unresolved model (mesh_j m)")
    case True
    then show ?thesis using meshRow_unresolved [OF True, of vl] by auto
  next
    case False
    then obtain r where r: "meshRow model vl m = Inr r"
      using meshRow_resolved [of model m vl] by auto
    have "\<exists>m \<in> set ms. unresolved model (mesh_i m) \<or> unresolved model (mesh_j m)"
      using Cons.prems False by auto
    then show ?thesis using Cons.IH r by auto
  qed
qed

lemma length_constraintRow: "length (row_A (constraintRow vl c)) = length vl"
  by (cases "c_type c") (simp_all add: constraintRow_def Let_def length_row_add length_row_put)

lemma buildRows_resolved:
  assumes "\<forall>m \<in> set (meshes model).
             \<not> unresolved model (mesh_i m) \<and> \<not> unresolved model (mesh_j m)"
  shows "\<exists>rows. buildRows model vl = Inr rows
           \<and> length rows = length (meshes model)
                + length (case constraints model of None \<Rightarrow> [] | Some cs \<Rightarrow> cs)
           \<and> (\<forall>r \<in> set rows. length (row_A r) = length vl)"
proof -
  obtain rs where rs: "meshRows model vl (meshes model) = Inr rs"
      "length rs = length (meshes model)" "\<forall>r \<in> set rs. length (row_A r) = length vl"
    using meshRows_resolved [OF assms] by blast
  then show ?thesis by (auto simp add: buildRows_def length_constraintRow)
qed

lemma buildRows_unresolved:
  assumes "\<exists>m \<in> set (meshes model). unresolved model (mesh_i m) \<or> unresolved model (mesh_j m)"
  shows "\<exists>x. buildRows model vl = Inl (ElementoNaoEncontrado x)
             \<or> buildRows model vl = Inl (ElementoSemN x)"
  using meshRows_unresolved [OF assms, of vl] by (auto simp add: buildRows_def)

lemma length_swapRows: "length (swapRows A r p) = length A"
  by (simp add: swapRows_def)

lemma length_eliminate: "length (eliminate r c m A) = length A"
  by (simp add: eliminate_def)

lemma length_pivotStep: "length (pivotStep r c m p A) = length A"
  by (simp add: pivotStep_def Let_def length_eliminate length_swapRows)

lemma length_solveColumn: "length (solveColumn n M c) = length M"
  by (simp add: solveColumn_def Let_def length_pivotStep)

lemma length_foldl_solveColumn: "length (foldl (solveColumn n) M cs) = length M"
  by (induction cs arbitrary: M) (simp_all add: length_solveColumn)

lemma length_solveGaussian: "length (solveGaussian A b) = length A"
  by (simp add: solveGaussian_def Let_def length_foldl_solveColumn augment_def)

lemma leastSquares_returns:
  assumes "A \<noteq> []" "0 < length (hd A)"
  shows "\<exists>sol. leastSquares A b = Inr sol \<and> length sol = length (hd A)"
proof -
  obtain a0 as where A: "A = a0 # as" using assms(1) by (cases A) auto
  define AT where "AT = map (\<lambda>j. map (\<lambda>row. row ! j) A) [0..<length a0]"
  have t: "transpose_m A = Inr AT" by (simp add: transpose_m_def A AT_def)
  have l: "length AT = length a0" by (simp add: AT_def)
  then have "AT \<noteq> []" using assms(2) A by auto
  then obtain t0 ts where AT: "AT = t0 # ts" by (cases AT) auto
  obtain ATA where m: "matMul AT A = Inr ATA" "length ATA = length AT"
    by (simp add: matMul_def AT A Let_def)
  show ?thesis using t m l A by (simp add: leastSquares_def length_solveGaussian)
qed


lemma solveStacked_over:
  assumes "rows \<noteq> []" "\<forall>r \<in> set rows. length (row_A r) = n"
    and "rankOf (map row_A rows) < rankOf (augment (map row_A rows) (map row_b rows))"
  shows "solveStacked model vl rows =
           Inr (Overdetermined (nat (max 1
             (max (int (rankOf (augment (map row_A rows) (map row_b rows)))
                     - int (rankOf (map row_A rows)))
                  (int (length rows) - int n)))))"
proof -
  obtain r0 rs where rows: "rows = r0 # rs" using assms(1) by (cases rows) auto
  have n: "length (row_A r0) = n" using assms(2) rows by simp
  show ?thesis
    using assms(3) unfolding rows by (simp add: solveStacked_def Let_def n)
qed

lemma solveStacked_under:
  assumes "rows \<noteq> []" "\<forall>r \<in> set rows. length (row_A r) = n"
    and "\<not> rankOf (map row_A rows) < rankOf (augment (map row_A rows) (map row_b rows))"
    and "rankOf (map row_A rows) < n"
  shows "solveStacked model vl rows = Inr (Underdetermined vl (n - rankOf (map row_A rows)))"
proof -
  obtain r0 rs where rows: "rows = r0 # rs" using assms(1) by (cases rows) auto
  have n: "length (row_A r0) = n" using assms(2) rows by simp
  show ?thesis
    using assms(3,4) unfolding rows by (simp add: solveStacked_def Let_def n)
qed

lemma solveStacked_velocities:
  assumes "rows \<noteq> []" "\<forall>r \<in> set rows. length (row_A r) = n"
    and "\<not> rankOf (map row_A rows) < rankOf (augment (map row_A rows) (map row_b rows))"
    and "\<not> rankOf (map row_A rows) < n" and "0 < n"
  shows "\<exists>sol. leastSquares (map row_A rows) (map row_b rows) = Inr sol \<and> length sol = n
           \<and> solveStacked model vl rows =
               Inr (Velocities vl (zip vl sol)
                      (map (ratioValue (zip vl sol))
                         (case ratios model of None \<Rightarrow> [] | Some rs \<Rightarrow> rs)) rows)"
proof -
  obtain r0 rs where rows: "rows = r0 # rs" using assms(1) by (cases rows) auto
  have n: "length (row_A r0) = n" using assms(2) rows by simp
  have "map row_A rows \<noteq> []" "0 < length (hd (map row_A rows))"
    using rows n assms(5) by simp_all
  then obtain sol where sol: "leastSquares (map row_A rows) (map row_b rows) = Inr sol"
      "length sol = length (hd (map row_A rows))"
    using leastSquares_returns by blast
  have "solveStacked model vl rows =
               Inr (Velocities vl (zip vl sol)
                      (map (ratioValue (zip vl sol))
                         (case ratios model of None \<Rightarrow> [] | Some rs \<Rightarrow> rs)) rows)"
    using assms(3,4) sol(1) unfolding rows by (simp add: solveStacked_def Let_def n)
  then show ?thesis using sol rows n by auto
qed

text \<open>
  Claim C1. For the single stage with a sun of 20 teeth known at 10 rpm, a ring of
  60 teeth held at 0 rpm, one planet of 20 teeth meshing externally with the sun
  and internally with the ring, and one carrier of unknown speed,
  \<open>solveGearSystem\<close> returns a velocity map, and the carrier turns at 2.5 rpm (the
  planet at -5 rpm). The ring may be held by a \<open>known\<close> constraint of value 0 or by
  a \<open>lock\<close>.
\<close>

theorem solveGearSystem_single_stage:
  "velocitiesOf (solveGearSystem (singleStage Known)) =
     Some [(''omega_s1'', 10), (''omega_b1'', 5 / 2), (''omega_p1_1'', - 5), (''omega_a1'', 0)]
   \<and> velocitiesOf (solveGearSystem (singleStage Lock)) =
     Some [(''omega_s1'', 10), (''omega_b1'', 5 / 2), (''omega_p1_1'', - 5), (''omega_a1'', 0)]"
  by code_simp

text \<open>
  Claim C2 at a model without equations. The open stage has the two variables of
  its carrier and planet and no row, so the rank of its matrix is 0, below the
  number of variables: the claim asks for the underdetermined result with two
  missing constraints. \<open>solveGearSystem\<close> reads \<open>A[0].length\<close> of the empty matrix
  and throws a TypeError. (\<open>rankOf\<close> itself guards the same read with \<open>?.\<close> and
  returns 0.) For a model with at least one row the three cases of the claim are
  the lemmas \<open>solveStacked_over\<close>, \<open>solveStacked_under\<close> and
  \<open>solveStacked_velocities\<close> above.
\<close>

theorem solveGearSystem_no_rows:
  "collectVars openStage = [''omega_b1'', ''omega_p1_1'']
   \<and> buildRows openStage (collectVars openStage) = Inr []
   \<and> rankOf [] = 0
   \<and> solveGearSystem openStage = Inl TypeError"
  by code_simp

text \<open>
  Claim C7, as stated, fails for the carrier of a mesh: \<open>lookupN\<close> is called for the
  two engaged members only. A mesh whose carrier is neither an element nor a
  carrier raises nothing; the carrier's terms are dropped from the row and the
  solver returns velocities.
\<close>

theorem solveGearSystem_failures_counterexample:
  "map mesh_carrier (meshes danglingCarrier) = [''omega_b9'']
   \<and> ''omega_b9'' \<notin> set (map el_omega (elements danglingCarrier))
   \<and> carriers danglingCarrier = None
   \<and> velocitiesOf (solveGearSystem danglingCarrier)
       = Some [(''omega_s1'', 10), (''omega_p1_1'', - 10)]"
  by code_simp

text \<open>
  Claim C7, amended. When an engaged member (\<open>i\<close> or \<open>j\<close>) of some mesh has no
  element of its name, or its element has no tooth count, \<open>solveGearSystem\<close> raises
  one of the two descriptive errors of \<open>lookupN\<close>. When every engaged member
  resolves, the rows are built, and if there is at least one row: with
  \<open>rank [A|b] > rank A\<close> the result is the overdetermined variant with
  \<open>max (1, rank [A|b] - rank A, m - n)\<close> conflicting constraints; otherwise, with
  \<open>rank A < n\<close>, it is the underdetermined variant with \<open>n - rank A\<close> missing
  constraints; otherwise, with at least one variable, it is a velocity map with one
  velocity for every variable. None of these throws.
\<close>

theorem solveGearSystem_failures:
  "((\<exists>m \<in> set (meshes model). unresolved model (mesh_i m) \<or> unresolved model (mesh_j m)) \<longrightarrow>
      (\<exists>x. solveGearSystem model = Inl (ElementoNaoEncontrado x)
          \<or> solveGearSystem model = Inl (ElementoSemN x)))
   \<and> ((\<forall>m \<in> set (meshes model).
          \<not> unresolved model (mesh_i m) \<and> \<not> unresolved model (mesh_j m)) \<longrightarrow>
      (\<exists>rows. buildRows model (collectVars model) = Inr rows
         \<and> (rows \<noteq> [] \<longrightarrow>
              (rankOf (map row_A rows) < rankOf (augment (map row_A rows) (map row_b rows)) \<longrightarrow>
                 solveGearSystem model =
                   Inr (Overdetermined (nat (max 1
                     (max (int (rankOf (augment (map row_A rows) (map row_b rows)))
                             - int (rankOf (map row_A rows)))
                          (int (length rows) - int (length (collectVars model))))))))
              \<and> (\<not> rankOf (map row_A rows) < rankOf (augment (map row_A rows) (map row_b rows))
                  \<and> rankOf (map row_A rows) < length (collectVars model) \<longrightarrow>
                 solveGearSystem model =
                   Inr (Underdetermined (collectVars model)
                          (length (collectVars model) - rankOf (map row_A rows))))
              \<and> (\<not> rankOf (map row_A rows) < rankOf (augment (map row_A rows) (map row_b rows))
                  \<and> \<not> rankOf (map row_A rows) < length (collectVars model)
                  \<and> collectVars model \<noteq> [] \<longrightarrow>
                 (\<exists>vel. velocitiesOf (solveGearSystem model) = Some vel
                     \<and> map fst vel = collectVars model)))))"
proof (intro conjI impI)
  assume "\<exists>m \<in> set (meshes model). unresolved model (mesh_i m) \<or> unresolved model (mesh_j m)"
  then show "\<exists>x. solveGearSystem model = Inl (ElementoNaoEncontrado x)
          \<or> solveGearSystem model = Inl (ElementoSemN x)"
    using buildRows_unresolved [of model "collectVars model"]
    by (auto simp add: solveGearSystem_def Let_def)
next
  assume a: "\<forall>m \<in> set (meshes model).
          \<not> unresolved model (mesh_i m) \<and> \<not> unresolved model (mesh_j m)"
  obtain rows where rows: "buildRows model (collectVars model) = Inr rows"
      "\<forall>r \<in> set rows. length (row_A r) = length (collectVars model)"
    using buildRows_resolved [OF a, of "collectVars model"] by blast
  have s: "solveGearSystem model = solveStacked model (collectVars model) rows"
    using rows(1) by (simp add: solveGearSystem_def Let_def)
  have "rows \<noteq> [] \<longrightarrow>
              (rankOf (map row_A rows) < rankOf (augment (map row_A rows) (map row_b rows)) \<longrightarrow>
                 solveGearSystem model =
                   Inr (Overdetermined (nat (max 1
                     (max (int (rankOf (augment (map row_A rows) (map row_b rows)))
                             - int (rankOf (map row_A rows)))
                          (int (length rows) - int (length (collectVars model))))))))
              \<and> (\<not> rankOf (map row_A rows) < rankOf (augment (map row_A rows) (map row_b rows))
                  \<and> rankOf (map row_A rows) < length (collectVars model) \<longrightarrow>
                 solveGearSystem model =
                   Inr (Underdetermined (collectVars model)
                          (length (collectVars model) - rankOf (map row_A rows))))
              \<and> (\<not> rankOf (map row_A rows) < rankOf (augment (map row_A rows) (map row_b rows))
                  \<and> \<not> rankOf (map row_A rows) < length (collectVars model)
                  \<and> collectVars model \<noteq> [] \<longrightarrow>
                 (\<exists>vel. velocitiesOf (solveGearSystem model) = Some vel
                     \<and> map fst vel = collectVars model))"
  proof (intro impI conjI)
    assume ne: "rows \<noteq> []"
    {
      assume "rankOf (map row_A rows) < rankOf (augment (map row_A rows) (map row_b rows))"
      then show "solveGearSystem model =
                   Inr (Overdetermined (nat (max 1
                     (max (int (rankOf (augment (map row_A rows) (map row_b rows)))
                             - int (rankOf (map row_A rows)))
                          (int (length rows) - int (length (collectVars model)))))))"
        unfolding s by (rule solveStacked_over [OF ne rows(2)])
    }
    {
      assume "\<not> rankOf (map row_A rows) < rankOf (augment (map row_A rows) (map row_b rows))
                  \<and> rankOf (map row_A rows) < length (collectVars model)"
      then show "solveGearSystem model =
                   Inr (Underdetermined (collectVars model)
                          (length (collectVars model) - rankOf (map row_A rows)))"
        unfolding s using solveStacked_under [OF ne rows(2)] by blast
    }
    {
      assume h: "\<not> rankOf (map row_A rows) < rankOf (augment (map row_A rows) (map row_b rows))
                  \<and> \<not> rankOf (map row_A rows) < length (collectVars model)
                  \<and> collectVars model \<noteq> []"
      then have "0 < length (collectVars model)" by simp
      then obtain sol where sol: "length sol = length (collectVars model)"
        "solveStacked model (collectVars model) rows =
               Inr (Velocities (collectVars model) (zip (collectVars model) sol)
                      (map (ratioValue (zip (collectVars model) sol))
                         (case ratios model of None \<Rightarrow> [] | Some rs \<Rightarrow> rs)) rows)"
        using solveStacked_velocities [OF ne rows(2), of model "collectVars model"] h by blast
      have "velocitiesOf (solveGearSystem model) = Some (zip (collectVars model) sol)
            \<and> map fst (zip (collectVars model) sol) = collectVars model"
        using sol by (simp add: s velocitiesOf_def)
      then show "\<exists>vel. velocitiesOf (solveGearSystem model) = Some vel
                     \<and> map fst vel = collectVars model" by blast
    }
  qed
  then show "\<exists>rows. buildRows model (collectVars model) = Inr rows
         \<and> (rows \<noteq> [] \<longrightarrow>
              (rankOf (map row_A rows) < rankOf (augment (map row_A rows) (map row_b rows)) \<longrightarrow>
                 solveGearSystem model =
                   Inr (Overdetermined (nat (max 1
                     (max (int (rankOf (augment (map row_A rows) (map row_b rows)))
                             - int (rankOf (map row_A rows)))
                          (int (length rows) - int (length (collectVars model))))))))
              \<and> (\<not> rankOf (map row_A rows) < rankOf (augment (map row_A rows) (map row_b rows))
                  \<and> rankOf (map row_A rows) < length (collectVars model) \<longrightarrow>
                 solveGearSystem model =
                   Inr (Underdetermined (collectVars model)
                          (length (collectVars model) - rankOf (map row_A rows))))
              \<and> (\<not> rankOf (map row_A rows) < rankOf (augment (map row_A rows) (map row_b rows))
                  \<and> \<not> rankOf (map row_A rows) < length (collectVars model)
                  \<and> collectVars model \<noteq> [] \<longrightarrow>
                 (\<exists>vel. velocitiesOf (solveGearSystem model) = Some vel
                     \<and> map fst vel = collectVars model)))"
    using rows(1) by blast
qed

text \<open>
  The sun that meshes with a planet that is no element raises; the single stage of
  claim C1 resolves, has rank 4 with and without the right-hand side, and returns
  a velocity for each of its four variables.
\<close>

theorem solveGearSystem_failures_witness:
  "(\<exists>x. solveGearSystem missingPlanet = Inl (ElementoNaoEncontrado x)
       \<or> solveGearSystem missingPlanet = Inl (ElementoSemN x))
   \<and> (\<exists>rows. buildRows (singleStage Known) (collectVars (singleStage Known)) = Inr rows
         \<and> (\<exists>vel. velocitiesOf (solveGearSystem (singleStage Known)) = Some vel
               \<and> map fst vel = collectVars (singleStage Known)))"
proof -
  have u: "\<exists>m \<in> set (meshes missingPlanet).
             unresolved missingPlanet (mesh_i m) \<or> unresolved missingPlanet (mesh_j m)"
    by code_simp
  have r: "\<forall>m \<in> set (meshes (singleStage Known)).
          \<not> unresolved (singleStage Known) (mesh_i m)
          \<and> \<not> unresolved (singleStage Known) (mesh_j m)"
    by code_simp
  obtain rows where rows: "buildRows (singleStage Known) (collectVars (singleStage Known)) = Inr rows"
    and rest: "rows \<noteq> [] \<longrightarrow>
       (\<not> rankOf (map row_A rows) < rankOf (augment (map row_A rows) (map row_b rows))
                  \<and> \<not> rankOf (map row_A rows) < length (collectVars (singleStage Known))
                  \<and> collectVars (singleStage Known) \<noteq> [] \<longrightarrow>
                 (\<exists>vel. velocitiesOf (solveGearSystem (singleStage Known)) = Some vel
                     \<and> map fst vel = collectVars (singleStage Known)))"
    using solveGearSystem_failures [of "singleStage Known"] r by blast
  have e: "buildRows (singleStage Known) (collectVars (singleStage Known)) =
          Inr [\<lparr>row_A = [20, - 40, 20, 0], row_b = 0,
                 row_tag = TagMesh ''omega_s1'' ''omega_p1_1'' ''omega_b1''\<rparr>,
               \<lparr>row_A = [0, 40, 20, - 60], row_b = 0,
                 row_tag = TagMesh ''omega_p1_1'' ''omega_a1'' ''omega_b1''\<rparr>,
               \<lparr>row_A = [1, 0, 0, 0], row_b = 10, row_tag = TagKnown (Some ''omega_s1'')\<rparr>,
               \<lparr>row_A = [0, 0, 0, 1], row_b = 0, row_tag = TagKnown (Some ''omega_a1'')\<rparr>]"
    by code_simp
  have k: "rankOf [[20, - 40, 20, 0], [0, 40, 20, - 60], [1, 0, 0, 0], [0, 0, 0, 1]] = 4"
    by code_simp
  have ka: "rankOf (augment [[20, - 40, 20, 0], [0, 40, 20, - 60], [1, 0, 0, 0], [0, 0, 0, 1]]
              [0, 0, 10, 0]) = 4"
    by code_simp
  have v: "length (collectVars (singleStage Known)) = 4" by code_simp
  have "\<exists>vel. velocitiesOf (solveGearSystem (singleStage Known)) = Some vel
               \<and> map fst vel = collectVars (singleStage Known)"
    using rest rows e k ka v by auto
  then show ?thesis
    using solveGearSystem_failures [of missingPlanet] u rows by blast
qed

section \<open>The pivot step of the eliminations\<close>











section \<open>The rank of a system extended by the solved velocities\<close>








section \<open>The round trip of the solver\<close>





















end
